theory Spec2Isabelle
  imports Complex_Main "HOL-Library.AList" "HOL-Library.Char_ord" "HOL-Library.List_Lexorder"
    "HOL-Library.Product_Lexorder"
begin

section \<open>Domain enumerations (domain/enums.py)\<close>

text \<open>
  \<open>EscrowStatus\<close> and \<open>EventType\<close> are string enumerations; each member is a
  constructor here and \<open>status_value\<close> gives the string the source stores in the
  \<open>status\<close> column.
\<close>

datatype status =
  CREATED | FUNDED | IN_PROGRESS | SUBMITTED | VERIFYING | COMPLETED | FAILED | DISPUTED

datatype event_type =
  CONTRACT_CREATED | CONTRACT_FUNDED | WORKER_ASSIGNED | WORK_SUBMITTED
  | VERIFICATION_STARTED | VERIFICATION_PASSED | VERIFICATION_FAILED
  | PAYMENT_INITIATED | PAYMENT_CONFIRMED
  | DISPUTE_RAISED | DISPUTE_RESOLVED_WORKER | DISPUTE_RESOLVED_BUYER
  | CONTRACT_EXPIRED | MAX_RETRIES_EXCEEDED

fun status_value :: "status \<Rightarrow> string" where
  "status_value CREATED = ''CREATED''"
| "status_value FUNDED = ''FUNDED''"
| "status_value IN_PROGRESS = ''IN_PROGRESS''"
| "status_value SUBMITTED = ''SUBMITTED''"
| "status_value VERIFYING = ''VERIFYING''"
| "status_value COMPLETED = ''COMPLETED''"
| "status_value FAILED = ''FAILED''"
| "status_value DISPUTED = ''DISPUTED''"

section \<open>The state machine (domain/state_machine.py)\<close>

text \<open>
  \<open>EscrowStateMachine\<close> declares eight states and eleven named events with the
  python-statemachine library. \<open>declared_transitions\<close> lists the declarations of the
  class body in source order, one row per \<open>SRC.to(TGT)\<close>; \<open>buyer_disputes\<close> is the
  union of two such rows. Firing an event looks for a row with that event and the
  current state as source; the library raises \<open>TransitionNotAllowed\<close>, which carries
  the event and the state, when there is none.
\<close>

datatype sm_event =
  on_chain_confirmed | timeout_expired | worker_accepts | worker_submits | auto_verify
  | verification_passed | verification_failed_retry | max_retries_exceeded
  | buyer_disputes | dispute_resolved_for_worker | dispute_resolved_for_buyer

definition states :: "status list" where
  "states = [CREATED, FUNDED, IN_PROGRESS, SUBMITTED, VERIFYING, COMPLETED, FAILED, DISPUTED]"

definition declared_transitions :: "(sm_event \<times> status \<times> status) list" where
  "declared_transitions =
    [(on_chain_confirmed, CREATED, FUNDED),
     (timeout_expired, CREATED, FAILED),
     (worker_accepts, FUNDED, IN_PROGRESS),
     (worker_submits, IN_PROGRESS, SUBMITTED),
     (auto_verify, SUBMITTED, VERIFYING),
     (verification_passed, VERIFYING, COMPLETED),
     (verification_failed_retry, VERIFYING, IN_PROGRESS),
     (max_retries_exceeded, VERIFYING, FAILED),
     (buyer_disputes, FUNDED, DISPUTED),
     (buyer_disputes, IN_PROGRESS, DISPUTED),
     (dispute_resolved_for_worker, DISPUTED, COMPLETED),
     (dispute_resolved_for_buyer, DISPUTED, FAILED)]"

datatype sm_error =
  UnknownStatus string
  | TransitionNotAllowed sm_event status

text \<open>
  \<open>__init__\<close>: the start value must be the value of one of the states, otherwise
  \<open>ValueError\<close> (here \<open>UnknownStatus\<close>, with the offending string).
\<close>

definition EscrowStateMachine :: "string \<Rightarrow> sm_error + status" where
  "EscrowStateMachine current_status =
     (case find (\<lambda>s. status_value s = current_status) states of
        None \<Rightarrow> Inl (UnknownStatus current_status)
      | Some s \<Rightarrow> Inr s)"

definition fire :: "status \<Rightarrow> sm_event \<Rightarrow> sm_error + status" where
  "fire s e =
     (case find (\<lambda>(e', src, tgt). e' = e \<and> src = s) declared_transitions of
        None \<Rightarrow> Inl (TransitionNotAllowed e s)
      | Some (e', src, tgt) \<Rightarrow> Inr tgt)"

definition get_allowed_events :: "status \<Rightarrow> sm_event list" where
  "get_allowed_events s =
     remdups (map fst (filter (\<lambda>(e, src, tgt). src = s) declared_transitions))"

text \<open>
  The transition table as section 4.1 of the specification prints it, row by row
  (event, from, to); the row for \<open>buyer_disputes\<close> has two source states.
\<close>

definition spec_table :: "(sm_event \<times> status \<times> status) list" where
  "spec_table =
    [(on_chain_confirmed, CREATED, FUNDED),
     (timeout_expired, CREATED, FAILED),
     (worker_accepts, FUNDED, IN_PROGRESS),
     (worker_submits, IN_PROGRESS, SUBMITTED),
     (auto_verify, SUBMITTED, VERIFYING),
     (verification_passed, VERIFYING, COMPLETED),
     (verification_failed_retry, VERIFYING, IN_PROGRESS),
     (max_retries_exceeded, VERIFYING, FAILED),
     (buyer_disputes, FUNDED, DISPUTED),
     (buyer_disputes, IN_PROGRESS, DISPUTED),
     (dispute_resolved_for_worker, DISPUTED, COMPLETED),
     (dispute_resolved_for_buyer, DISPUTED, FAILED)]"

section \<open>Stored data (infrastructure/database/orm_models.py)\<close>

text \<open>
  JSON columns and Python dictionaries. A dictionary is an association list in
  insertion order with one entry per key; \<open>map_of\<close> is \<open>dict.get\<close> and
  \<open>AList.update\<close> is item assignment (an existing key keeps its place, a new key goes
  to the end). Python floats and \<open>Decimal\<close> amounts are values of type \<open>real\<close>; the
  code only stores, compares and clamps them.
\<close>

datatype json =
  JNull | JBool bool | JInt int | JNum real | JStr string
  | JList "json list" | JDict "(string \<times> json) list"

type_synonym dict = "(string \<times> json) list"

type_synonym uuid = nat

text \<open>
  The three tables. Primary keys are the generated UUIDs; a contract's id is the key
  under which the store holds it. The status column is a string, as in the source.
  Timestamps are not modelled: the submission and event lists are kept in creation
  order, which is the order \<open>submitted_at\<close> and \<open>created_at\<close> give.
\<close>

record escrow_contract =
  buyer_wallet :: string
  worker_wallet :: "string option"
  amount_usdc :: real
  escrow_wallet_address :: "string option"
  funding_tx_hash :: "string option"
  settlement_tx_hash :: "string option"
  status :: string
  description :: "string option"
  requirements_schema :: "dict option"
  verification_logic :: dict
  max_retries :: int
  retry_count :: int

record work_submission =
  s_id :: uuid
  s_contract_id :: uuid
  payload :: string
  submitted_by :: "string option"
  verification_result :: "dict option"
  s_is_valid :: "bool option"

record escrow_event =
  e_contract_id :: uuid
  e_event_type :: event_type
  old_status :: "string option"
  new_status :: string
  actor :: string
  metadata_json :: "dict option"

text \<open>
  The database and the session. A value of \<open>tables\<close> is the content of the three
  tables. A session (\<open>store\<close>) holds the tables as it sees them, with every write it
  has flushed, and the tables as they were last committed. Every repository write ends
  with \<open>flush\<close>, so a write is in the session from that point on, whether or not the
  method that made it later raises; it reaches the database when the caller commits,
  and it is gone when the caller rolls back.
\<close>

record tables =
  t_contracts :: "uuid \<rightharpoonup> escrow_contract"
  t_submissions :: "work_submission list"
  t_events :: "escrow_event list"

record store =
  contracts :: "uuid \<rightharpoonup> escrow_contract"
  submissions :: "work_submission list"
  events :: "escrow_event list"
  committed :: tables

text \<open>
  \<open>begin_session\<close> is the session the session factory gives on a database, \<open>commit\<close>
  and \<open>rollback\<close> are \<open>session.commit()\<close> and \<open>session.rollback()\<close>. The service
  calls none of them: they belong to its callers.
\<close>

definition session_tables :: "store \<Rightarrow> tables" where
  "session_tables st =
     \<lparr>t_contracts = contracts st, t_submissions = submissions st, t_events = events st\<rparr>"

definition begin_session :: "tables \<Rightarrow> store" where
  "begin_session db =
     \<lparr>contracts = t_contracts db, submissions = t_submissions db, events = t_events db,
      committed = db\<rparr>"

definition commit :: "store \<Rightarrow> store" where
  "commit st = st\<lparr>committed := session_tables st\<rparr>"

definition rollback :: "store \<Rightarrow> store" where
  "rollback st =
     st\<lparr>contracts := t_contracts (committed st),
        submissions := t_submissions (committed st),
        events := t_events (committed st)\<rparr>"

text \<open>
  The table constraint \<open>ck_escrow_retry_bounds\<close> of \<open>escrow_contracts\<close>
  (\<open>retry_count >= 0 AND retry_count <= max_retries\<close>). The database checks it when
  a flush writes the row; a violation raises \<open>IntegrityError\<close>, and the failed flush
  rolls the session's transaction back. Of the constraints of the tables this is the
  one that an update made by the service can violate; the constraints on the values
  of a new row (a positive amount, \<open>max_retries\<close> not negative, the lengths of the
  columns) are not modelled: \<open>create_contract\<close> is given as it runs on values that
  satisfy them.
\<close>

definition ck_escrow_retry_bounds :: "escrow_contract \<Rightarrow> bool" where
  "ck_escrow_retry_bounds c = (retry_count c \<ge> 0 \<and> retry_count c \<le> max_retries c)"

section \<open>Repositories (infrastructure/database/repositories.py)\<close>

definition modify_contract :: "uuid \<Rightarrow> (escrow_contract \<Rightarrow> escrow_contract) \<Rightarrow> store \<Rightarrow> store" where
  "modify_contract cid f st =
     (case contracts st cid of
        None \<Rightarrow> st
      | Some c \<Rightarrow> st\<lparr>contracts := (contracts st)(cid \<mapsto> f c)\<rparr>)"

definition escrow_create :: "uuid \<Rightarrow> escrow_contract \<Rightarrow> store \<Rightarrow> store" where
  "escrow_create cid c st = st\<lparr>contracts := (contracts st)(cid \<mapsto> c)\<rparr>"

definition update_status :: "uuid \<Rightarrow> status \<Rightarrow> store \<Rightarrow> store" where
  "update_status cid new st = modify_contract cid (\<lambda>c. c\<lparr>status := status_value new\<rparr>) st"

text \<open>
  \<open>increment_retry\<close> adds one to the counter and flushes. The result is the session
  with the row written, or the name of the constraint that the flush found violated.
\<close>

definition increment_retry :: "uuid \<Rightarrow> store \<Rightarrow> string + store" where
  "increment_retry cid st =
     (case contracts st cid of
        None \<Rightarrow> Inr st
      | Some c \<Rightarrow>
          (if ck_escrow_retry_bounds (c\<lparr>retry_count := retry_count c + 1\<rparr>)
           then Inr (modify_contract cid (\<lambda>c. c\<lparr>retry_count := retry_count c + 1\<rparr>) st)
           else Inl ''ck_escrow_retry_bounds''))"

definition submission_create :: "work_submission \<Rightarrow> store \<Rightarrow> store" where
  "submission_create sub st = st\<lparr>submissions := submissions st @ [sub]\<rparr>"

definition submission_get_by_id :: "store \<Rightarrow> uuid \<Rightarrow> work_submission option" where
  "submission_get_by_id st sid = find (\<lambda>s. s_id s = sid) (submissions st)"

text \<open>Newest first: the reverse of creation order.\<close>

definition submission_get_by_contract :: "store \<Rightarrow> uuid \<Rightarrow> work_submission list" where
  "submission_get_by_contract st cid = rev (filter (\<lambda>s. s_contract_id s = cid) (submissions st))"

definition update_verification :: "uuid \<Rightarrow> bool \<Rightarrow> dict \<Rightarrow> store \<Rightarrow> store" where
  "update_verification sid valid vr st =
     st\<lparr>submissions :=
          map (\<lambda>s. if s_id s = sid
                    then s\<lparr>s_is_valid := Some valid, verification_result := Some vr\<rparr>
                    else s)
              (submissions st)\<rparr>"

definition event_record ::
  "uuid \<Rightarrow> event_type \<Rightarrow> status option \<Rightarrow> status \<Rightarrow> string \<Rightarrow> dict option \<Rightarrow> store \<Rightarrow> store" where
  "event_record cid et old new act md st =
     st\<lparr>events := events st @
          [\<lparr>e_contract_id = cid, e_event_type = et,
            old_status = map_option status_value old,
            new_status = status_value new, actor = act, metadata_json = md\<rparr>]\<rparr>"

definition event_get_by_contract :: "store \<Rightarrow> uuid \<Rightarrow> escrow_event list" where
  "event_get_by_contract st cid = filter (\<lambda>e. e_contract_id e = cid) (events st)"

section \<open>The escrow service (services/escrow_service.py)\<close>

text \<open>
  Exceptions are values. A service method returns its result or the exception it
  raised, together with the session as the method left it: a write made before a
  \<open>raise\<close> is still there. \<open>ValueError\<close> is the one raised for a status string that
  is no status, and carries that string; \<open>MissingVerifierType\<close> and
  \<open>UnknownVerifierType\<close> are the two \<open>ValueError\<close>s of the verifier factory, the
  second with the value found under \<open>type\<close>. \<open>IntegrityError\<close> is SQLAlchemy's, with
  the name of the violated constraint, and \<open>PyException\<close> carries the name of a
  built-in exception, not the message text. \<open>OutsideModel\<close> marks an input on which
  the source goes on with a value of another type than the one its annotations
  declare; the model stops there.
\<close>

datatype svc_error =
  ContractNotFoundError uuid
  | InvalidStateTransitionError string sm_event
  | WorkerAlreadyAssignedError uuid
  | ValueError string
  | MissingVerifierType
  | UnknownVerifierType json
  | IntegrityError string
  | PyException string
  | OutsideModel string

text \<open>Python's \<open>a or b\<close> on optional strings: \<open>None\<close> and the empty string are falsy.\<close>

definition py_or :: "string option \<Rightarrow> string option \<Rightarrow> string option" where
  "py_or a b = (case a of Some s \<Rightarrow> (if s \<noteq> [] then a else b) | None \<Rightarrow> b)"

fun show_nat :: "nat \<Rightarrow> string" where
  "show_nat n =
     (if n < 10 then [char_of (48 + n)]
      else show_nat (n div 10) @ [char_of (48 + n mod 10)])"

declare show_nat.simps [simp del]

definition show_int :: "int \<Rightarrow> string" where
  "show_int i = (if i < 0 then CHR ''-'' # show_nat (nat (- i)) else show_nat (nat i))"

text \<open>\<open>str(id)\<close> of a generated id.\<close>

definition uuid_str :: "uuid \<Rightarrow> string" where
  "uuid_str u = show_nat u"

definition get_contract_or_raise :: "store \<Rightarrow> uuid \<Rightarrow> svc_error + escrow_contract" where
  "get_contract_or_raise st cid =
     (case contracts st cid of
        None \<Rightarrow> Inl (ContractNotFoundError cid)
      | Some c \<Rightarrow> Inr c)"

text \<open>
  \<open>_fire_transition\<close> builds a machine at the contract's status and fires the event
  on it; the machine is discarded. The service passes the event by name, always one
  of the eleven declared events.
\<close>

definition fire_transition :: "escrow_contract \<Rightarrow> sm_event \<Rightarrow> svc_error + unit" where
  "fire_transition c e =
     (case EscrowStateMachine (status c) of
        Inl err \<Rightarrow> Inl (ValueError (status c))
      | Inr s \<Rightarrow>
          (case fire s e of
             Inl err \<Rightarrow> Inl (InvalidStateTransitionError (status c) e)
           | Inr t \<Rightarrow> Inr ()))"

text \<open>The contract as the session holds it: the object a method returns.\<close>

definition the_contract :: "store \<Rightarrow> uuid \<Rightarrow> escrow_contract \<Rightarrow> escrow_contract" where
  "the_contract st cid c = (case contracts st cid of Some c' \<Rightarrow> c' | None \<Rightarrow> c)"

definition create_contract ::
  "store \<Rightarrow> uuid \<Rightarrow> string \<Rightarrow> real \<Rightarrow> string \<Rightarrow> dict \<Rightarrow> dict option \<Rightarrow> int
     \<Rightarrow> (svc_error + escrow_contract) \<times> store" where
  "create_contract st new_id buyer amount descr vlogic req_schema maxr =
     (let contract = \<lparr>buyer_wallet = buyer, worker_wallet = None, amount_usdc = amount,
                       escrow_wallet_address = None, funding_tx_hash = None,
                       settlement_tx_hash = None, status = status_value CREATED,
                       description = Some descr, requirements_schema = req_schema,
                       verification_logic = vlogic, max_retries = maxr, retry_count = 0\<rparr>;
          st1 = escrow_create new_id contract st;
          st2 = event_record new_id CONTRACT_CREATED None CREATED buyer
                  (Some [(''description'', JStr descr)]) st1
      in (Inr contract, st2))"

definition fund_contract ::
  "store \<Rightarrow> uuid \<Rightarrow> string \<Rightarrow> string \<Rightarrow> (svc_error + escrow_contract) \<times> store" where
  "fund_contract st cid tx_hash wallet =
     (case get_contract_or_raise st cid of
        Inl err \<Rightarrow> (Inl err, st)
      | Inr contract \<Rightarrow>
          (case fire_transition contract on_chain_confirmed of
             Inl err \<Rightarrow> (Inl err, st)
           | Inr u \<Rightarrow>
               (let st1 = modify_contract cid
                            (\<lambda>c. c\<lparr>funding_tx_hash := Some tx_hash,
                                   escrow_wallet_address := Some wallet\<rparr>) st;
                    st2 = update_status cid FUNDED st1;
                    st3 = event_record cid CONTRACT_FUNDED (Some CREATED) FUNDED ''SYSTEM''
                            (Some [(''tx_hash'', JStr tx_hash), (''escrow_wallet'', JStr wallet)])
                            st2
                in (Inr (the_contract st3 cid contract), st3))))"

definition accept_contract ::
  "store \<Rightarrow> uuid \<Rightarrow> string \<Rightarrow> (svc_error + escrow_contract) \<times> store" where
  "accept_contract st cid worker =
     (case get_contract_or_raise st cid of
        Inl err \<Rightarrow> (Inl err, st)
      | Inr contract \<Rightarrow>
          (if worker_wallet contract \<noteq> None then (Inl (WorkerAlreadyAssignedError cid), st)
           else
             (case fire_transition contract worker_accepts of
                Inl err \<Rightarrow> (Inl err, st)
              | Inr u \<Rightarrow>
                  (let st1 = modify_contract cid (\<lambda>c. c\<lparr>worker_wallet := Some worker\<rparr>) st;
                       st2 = update_status cid IN_PROGRESS st1;
                       st3 = event_record cid WORKER_ASSIGNED (Some FUNDED) IN_PROGRESS worker
                               None st2
                   in (Inr (the_contract st3 cid contract), st3)))))"

definition submit_work ::
  "store \<Rightarrow> uuid \<Rightarrow> uuid \<Rightarrow> string \<Rightarrow> string option
     \<Rightarrow> (svc_error + work_submission) \<times> store" where
  "submit_work st new_sid cid pl worker =
     (case get_contract_or_raise st cid of
        Inl err \<Rightarrow> (Inl err, st)
      | Inr contract \<Rightarrow>
          (case fire_transition contract worker_submits of
             Inl err \<Rightarrow> (Inl err, st)
           | Inr u \<Rightarrow>
               (let st1 = update_status cid SUBMITTED st;
                    submission = \<lparr>s_id = new_sid, s_contract_id = cid, payload = pl,
                                   submitted_by = py_or worker (worker_wallet contract),
                                   verification_result = None, s_is_valid = None\<rparr>;
                    st2 = submission_create submission st1;
                    act = (case py_or (py_or worker (worker_wallet contract)) (Some ''UNKNOWN'')
                             of Some a \<Rightarrow> a | None \<Rightarrow> ''UNKNOWN'');
                    st3 = event_record cid WORK_SUBMITTED (Some IN_PROGRESS) SUBMITTED act
                            (Some [(''submission_id'', JStr (uuid_str new_sid))]) st2
                in (Inr submission, st3))))"

definition start_verification ::
  "store \<Rightarrow> uuid \<Rightarrow> (svc_error + escrow_contract) \<times> store" where
  "start_verification st cid =
     (case get_contract_or_raise st cid of
        Inl err \<Rightarrow> (Inl err, st)
      | Inr contract \<Rightarrow>
          (case fire_transition contract auto_verify of
             Inl err \<Rightarrow> (Inl err, st)
           | Inr u \<Rightarrow>
               (let st1 = update_status cid VERIFYING st;
                    st2 = event_record cid VERIFICATION_STARTED (Some SUBMITTED) VERIFYING
                            ''SYSTEM'' None st1
                in (Inr (the_contract st2 cid contract), st2))))"

definition record_verification_passed ::
  "store \<Rightarrow> uuid \<Rightarrow> uuid \<Rightarrow> dict \<Rightarrow> (svc_error + escrow_contract) \<times> store" where
  "record_verification_passed st cid sid vr =
     (case get_contract_or_raise st cid of
        Inl err \<Rightarrow> (Inl err, st)
      | Inr contract \<Rightarrow>
          (case fire_transition contract verification_passed of
             Inl err \<Rightarrow> (Inl err, st)
           | Inr u \<Rightarrow>
               (let st1 = update_status cid COMPLETED st;
                    st2 = (case submission_get_by_id st1 sid of
                             Some sub \<Rightarrow> update_verification sid True vr st1
                           | None \<Rightarrow> st1);
                    st3 = event_record cid VERIFICATION_PASSED (Some VERIFYING) COMPLETED
                            ''SYSTEM'' (Some vr) st2
                in (Inr (the_contract st3 cid contract), st3))))"

text \<open>
  \<open>{"retry_count": n, **verification_result}\<close>: the entries of the result are
  assigned after \<open>retry_count\<close>, in their order.
\<close>

definition retry_metadata :: "int \<Rightarrow> dict \<Rightarrow> dict" where
  "retry_metadata n vr = foldl (\<lambda>d (k, v). AList.update k v d) [(''retry_count'', JInt n)] vr"

text \<open>
  \<open>record_verification_failed\<close> marks the submission and increments the counter
  before it fires the event. When the flush of the increment violates
  \<open>ck_escrow_retry_bounds\<close> the method ends with \<open>IntegrityError\<close>; the failed flush
  has rolled the transaction back, so the session is left with the tables as last
  committed (it takes no further call before the caller's \<open>rollback\<close>, which the
  model does not follow).
\<close>

definition record_verification_failed ::
  "store \<Rightarrow> uuid \<Rightarrow> uuid \<Rightarrow> dict \<Rightarrow> (svc_error + escrow_contract) \<times> store" where
  "record_verification_failed st cid sid vr =
     (case get_contract_or_raise st cid of
        Inl err \<Rightarrow> (Inl err, st)
      | Inr contract0 \<Rightarrow>
          (let st1 = (case submission_get_by_id st sid of
                        Some sub \<Rightarrow> update_verification sid False vr st
                      | None \<Rightarrow> st)
           in case increment_retry cid st1 of
                Inl violated \<Rightarrow> (Inl (IntegrityError violated), rollback st1)
              | Inr st2 \<Rightarrow>
                  (let contract = the_contract st2 cid contract0
                   in if retry_count contract \<ge> max_retries contract
                      then
                        (case fire_transition contract max_retries_exceeded of
                           Inl err \<Rightarrow> (Inl err, st2)
                         | Inr u \<Rightarrow>
                             (let st3 = update_status cid FAILED st2;
                                  st4 = event_record cid MAX_RETRIES_EXCEEDED (Some VERIFYING)
                                          FAILED ''SYSTEM''
                                          (Some (retry_metadata (retry_count contract) vr)) st3
                              in (Inr (the_contract st4 cid contract), st4)))
                      else
                        (case fire_transition contract verification_failed_retry of
                           Inl err \<Rightarrow> (Inl err, st2)
                         | Inr u \<Rightarrow>
                             (let st3 = update_status cid IN_PROGRESS st2;
                                  st4 = event_record cid VERIFICATION_FAILED (Some VERIFYING)
                                          IN_PROGRESS ''SYSTEM''
                                          (Some (retry_metadata (retry_count contract) vr)) st3
                              in (Inr (the_contract st4 cid contract), st4))))))"

text \<open>
  \<open>raise_dispute\<close> reads the old status from the contract; \<open>EscrowStatus(...)\<close> raises
  \<open>ValueError\<close> on a string that is no status value.
\<close>

definition raise_dispute ::
  "store \<Rightarrow> uuid \<Rightarrow> string \<Rightarrow> string \<Rightarrow> (svc_error + escrow_contract) \<times> store" where
  "raise_dispute st cid reason raised_by =
     (case get_contract_or_raise st cid of
        Inl err \<Rightarrow> (Inl err, st)
      | Inr contract \<Rightarrow>
          (case find (\<lambda>s. status_value s = status contract) states of
             None \<Rightarrow> (Inl (ValueError (status contract)), st)
           | Some old \<Rightarrow>
               (case fire_transition contract buyer_disputes of
                  Inl err \<Rightarrow> (Inl err, st)
                | Inr u \<Rightarrow>
                    (let st1 = update_status cid DISPUTED st;
                         st2 = event_record cid DISPUTE_RAISED (Some old) DISPUTED raised_by
                                 (Some [(''reason'', JStr reason)]) st1
                     in (Inr (the_contract st2 cid contract), st2)))))"

definition get_contract :: "store \<Rightarrow> uuid \<Rightarrow> (svc_error + escrow_contract) \<times> store" where
  "get_contract st cid = (get_contract_or_raise st cid, st)"

record status_report =
  r_contract_id :: string
  r_status :: string
  r_retry_count :: int
  r_max_retries :: int
  r_allowed_events :: "sm_event list"

definition get_status :: "store \<Rightarrow> uuid \<Rightarrow> (svc_error + status_report) \<times> store" where
  "get_status st cid =
     (case get_contract_or_raise st cid of
        Inl err \<Rightarrow> (Inl err, st)
      | Inr contract \<Rightarrow>
          (case EscrowStateMachine (status contract) of
             Inl err \<Rightarrow> (Inl (ValueError (status contract)), st)
           | Inr s \<Rightarrow>
               (Inr \<lparr>r_contract_id = uuid_str cid, r_status = status contract,
                      r_retry_count = retry_count contract,
                      r_max_retries = max_retries contract,
                      r_allowed_events = get_allowed_events s\<rparr>, st)))"

definition get_events :: "store \<Rightarrow> uuid \<Rightarrow> (svc_error + escrow_event list) \<times> store" where
  "get_events st cid = (Inr (event_get_by_contract st cid), st)"

section \<open>Units of work (infrastructure/database/engine.py, mcp_server/tools.py)\<close>

text \<open>
  The callers of the service open the session and end it. \<open>get_async_session\<close> is
  the dependency of the REST routes: the handler runs with a new session, which is
  committed when the handler returns and rolled back when it raises; the exception
  goes on to the caller. An MCP tool opens its own session, calls the service and
  commits; an exception skips the commit, the session is closed with its writes
  uncommitted, and the tool answers with the error. Both are given here with the
  handler as a function of the session, and return the handler's result with the
  database as the unit of work leaves it.
\<close>

definition get_async_session ::
  "(store \<Rightarrow> (svc_error + 'a) \<times> store) \<Rightarrow> tables \<Rightarrow> (svc_error + 'a) \<times> tables" where
  "get_async_session handler db =
     (case handler (begin_session db) of
        (Inr x, st) \<Rightarrow> (Inr x, committed (commit st))
      | (Inl err, st) \<Rightarrow> (Inl err, committed (rollback st)))"

definition mcp_tool ::
  "(store \<Rightarrow> (svc_error + 'a) \<times> store) \<Rightarrow> tables \<Rightarrow> (svc_error + 'a) \<times> tables" where
  "mcp_tool body db =
     (case body (begin_session db) of
        (Inr x, st) \<Rightarrow> (Inr x, committed (commit st))
      | (Inl err, st) \<Rightarrow> (Inl err, committed st))"

section \<open>Python string operations used by the verifiers\<close>

text \<open>
  A string is a list of characters with codes 0 to 255. \<open>py_isspace\<close> is
  \<open>str.isspace\<close> on that range, \<open>strip\<close> is \<open>str.strip()\<close>,
  \<open>split_nl\<close> is \<open>str.split("\n")\<close>, \<open>startswith\<close> and \<open>contains\<close> are
  \<open>str.startswith\<close> and the \<open>in\<close> test, and \<open>after_colon\<close> is
  \<open>s.split(":", 1)[1]\<close> for an \<open>s\<close> that has a colon.

  \<open>upper\<close> is \<open>str.upper()\<close> on that range: the letters a to z, the letters with
  codes 224 to 254 (but not the division sign, 247), which move down by 32, and the
  sharp s (223), which becomes the two letters SS, so that the upper-case text can be
  longer than the text. The upper-case forms of the micro sign (181) and of the y with
  diaeresis (255) are single characters with codes above 255; the model keeps these
  two characters as they are, which gives the same answer wherever the code uses
  an upper-case text: it compares it with ASCII labels and takes positions in it.
\<close>

definition py_isspace :: "char \<Rightarrow> bool" where
  "py_isspace c = (of_char c \<in> {9, 10, 11, 12, 13, 28, 29, 30, 31, 32, 133, 160 :: nat})"

definition strip :: "string \<Rightarrow> string" where
  "strip s = rev (dropWhile py_isspace (rev (dropWhile py_isspace s)))"

definition upper_char :: "char \<Rightarrow> string" where
  "upper_char c =
     (case map_of (zip ''abcdefghijklmnopqrstuvwxyz'' ''ABCDEFGHIJKLMNOPQRSTUVWXYZ'') c of
        Some u \<Rightarrow> [u]
      | None \<Rightarrow>
          (let n = (of_char c :: nat)
           in if n = 223 then ''SS''
              else if 224 \<le> n \<and> n \<le> 254 \<and> n \<noteq> 247 then [char_of (n - 32)]
              else [c]))"

definition upper :: "string \<Rightarrow> string" where
  "upper s = concat (map upper_char s)"

fun split_on :: "char \<Rightarrow> string \<Rightarrow> string list" where
  "split_on c [] = [[]]"
| "split_on c (x # xs) =
     (if x = c then [] # split_on c xs
      else (case split_on c xs of
              [] \<Rightarrow> [[x]]
            | l # ls \<Rightarrow> (x # l) # ls))"

definition split_nl :: "string \<Rightarrow> string list" where
  "split_nl s = split_on (CHR 0x0A) s"

definition startswith :: "string \<Rightarrow> string \<Rightarrow> bool" where
  "startswith p s = (take (length p) s = p)"

fun contains :: "string \<Rightarrow> string \<Rightarrow> bool" where
  "contains p [] = (p = [])"
| "contains p (x # xs) = (startswith p (x # xs) \<or> contains p xs)"

text \<open>\<open>s.index(p) + len(p)\<close> for a \<open>p\<close> that occurs in \<open>s\<close>: the position after its first occurrence.\<close>

fun index_after :: "string \<Rightarrow> string \<Rightarrow> nat" where
  "index_after p [] = length p"
| "index_after p (x # xs) =
     (if startswith p (x # xs) then length p else Suc (index_after p xs))"

definition after_colon :: "string \<Rightarrow> string" where
  "after_colon s = drop 1 (dropWhile (\<lambda>c. c \<noteq> CHR '':'') s)"

definition join_nl :: "string list \<Rightarrow> string" where
  "join_nl parts = (case parts of [] \<Rightarrow> [] | p # ps \<Rightarrow> foldl (\<lambda>acc q. acc @ CHR 0x0A # q) p ps)"

section \<open>The verifier protocol (domain/verifier_protocol.py)\<close>

record verification_request =
  rq_contract_id :: string
  rq_payload :: string
  rq_config :: dict
  rq_schema :: "dict option"

record verification_result_t =
  is_valid :: bool
  score :: "real option"
  details :: string
  logs :: dict
  error :: "string option"

definition to_dict :: "verification_result_t \<Rightarrow> dict" where
  "to_dict r =
     [(''is_valid'', JBool (is_valid r)),
      (''score'', (case score r of None \<Rightarrow> JNull | Some x \<Rightarrow> JNum x)),
      (''details'', JStr (details r)),
      (''logs'', JDict (logs r)),
      (''error'', (case error r of None \<Rightarrow> JNull | Some e \<Rightarrow> JStr e))]"

text \<open>Truth value of a JSON value, as Python's \<open>if\<close> and \<open>not\<close> take it.\<close>

fun truthy :: "json \<Rightarrow> bool" where
  "truthy JNull = False"
| "truthy (JBool b) = b"
| "truthy (JInt i) = (i \<noteq> 0)"
| "truthy (JNum x) = (x \<noteq> 0)"
| "truthy (JStr s) = (s \<noteq> [])"
| "truthy (JList xs) = (xs \<noteq> [])"
| "truthy (JDict d) = (d \<noteq> [])"

section \<open>The semantic verifier (verifiers/semantic.py)\<close>

text \<open>
  \<open>_parse_response\<close> walks the lines of the judge's answer and keeps three variables
  (verdict, score, reasoning); each labelled line overwrites its variable, so the last
  such line decides. \<open>float\<close> (the parameter \<open>py_float\<close>) is Python's conversion,
  \<open>None\<close> when it raises \<open>ValueError\<close>.
\<close>

definition parse_line ::
  "(string \<Rightarrow> real option) \<Rightarrow> bool \<times> real \<times> string \<Rightarrow> string \<Rightarrow> bool \<times> real \<times> string" where
  "parse_line py_float acc line0 =
     (case acc of (verdict, sc, reasoning) \<Rightarrow>
        (let line = strip line0 in
         if startswith ''VERDICT:'' (upper line)
         then (upper (strip (after_colon line)) = ''TRUE'', sc, reasoning)
         else if startswith ''SCORE:'' (upper line)
         then (verdict,
               (case py_float (strip (after_colon line)) of
                  Some x \<Rightarrow> max 0 (min 1 x)
                | None \<Rightarrow> 0),
               reasoning)
         else if startswith ''REASONING:'' (upper line)
         then (verdict, sc, strip (after_colon line))
         else (verdict, sc, reasoning)))"

definition parse_response ::
  "(string \<Rightarrow> real option) \<Rightarrow> string \<Rightarrow> bool \<times> real \<times> string" where
  "parse_response py_float response =
     (case foldl (parse_line py_float) (False, 0, []) (split_nl response) of
        (verdict, sc, reasoning) \<Rightarrow>
          (let r1 = (if reasoning = [] \<and> contains ''REASONING:'' (upper response)
                     then strip (drop (index_after ''REASONING:'' (upper response)) response)
                     else reasoning);
               r2 = (if r1 = []
                     then ''Could not parse structured reasoning from LLM response. Raw: ''
                          @ take 200 response
                     else r1)
           in (verdict, sc, r2)))"

text \<open>
  The reading of the specification: a line "reads \<open>VERDICT: TRUE\<close>" when, trimmed
  and compared without regard to case, it starts with \<open>VERDICT:\<close> and the value after
  the colon, trimmed, is \<open>TRUE\<close>; a response has a verdict line when some line of it
  starts with \<open>VERDICT:\<close> in that sense.
\<close>

definition is_verdict_line :: "string \<Rightarrow> bool" where
  "is_verdict_line line0 = startswith ''VERDICT:'' (upper (strip line0))"

definition reads_verdict_true :: "string \<Rightarrow> bool" where
  "reads_verdict_true line0 =
     (is_verdict_line line0 \<and> upper (strip (after_colon (strip line0))) = ''TRUE'')"

section \<open>External collaborators\<close>

text \<open>
  What the verifiers call outside the repository is a parameter: the settings, the
  E2B sandbox, the LiteLLM completion call, Python's \<open>float\<close> and \<open>str\<close>,
  \<open>json.loads\<close> and the Draft-7 validator's \<open>iter_errors\<close>. A call that may be
  retried takes the number of the attempt.
\<close>

datatype sandbox_exec =
  Executed "string list" "string list" "(string \<times> string) option"
  | RaisedTimeout
  | Raised string

datatype sandbox_outcome =
  Ran string string int
  | TimedOut
  | SandboxFailed string

datatype pelem = PKey string | PIdx int

record verror =
  v_path :: "pelem list"
  v_message :: string
  v_schema_path :: "pelem list"

datatype validator_outcome =
  Errors "verror list"
  | SchemaError string
  | OtherError string

record env =
  e2b_api_key :: string
  e2b_timeout_seconds :: int
  litellm_model :: string
  sandbox_run :: "string \<Rightarrow> string \<Rightarrow> json \<Rightarrow> nat \<Rightarrow> sandbox_exec"
  acompletion :: "json \<Rightarrow> string \<Rightarrow> nat \<Rightarrow> string + string option"
  py_float :: "string \<Rightarrow> real option"
  py_str :: "json \<Rightarrow> string"
  json_loads :: "string \<Rightarrow> string + json"
  iter_errors :: "dict \<Rightarrow> json \<Rightarrow> validator_outcome"

section \<open>The code-execution verifier (verifiers/code_execution.py)\<close>

text \<open>
  \<open>_run_in_sandbox\<close>: one attempt joins the collected lines and turns an execution
  error into exit code 1; the \<open>retry\<close> decorator makes a second attempt when the first
  raised and re-raises what the second raised.
\<close>

definition run_attempt :: "env \<Rightarrow> string \<Rightarrow> string \<Rightarrow> json \<Rightarrow> nat \<Rightarrow> sandbox_outcome" where
  "run_attempt ev code key timeout i =
     (case sandbox_run ev code key timeout i of
        Executed outs errs err \<Rightarrow>
          (case err of
             Some (name, val) \<Rightarrow>
               Ran (join_nl outs) (join_nl errs @ [CHR 0x0A] @ name @ '': '' @ val) 1
           | None \<Rightarrow> Ran (join_nl outs) (join_nl errs) 0)
      | RaisedTimeout \<Rightarrow> TimedOut
      | Raised msg \<Rightarrow> SandboxFailed msg)"

definition run_in_sandbox :: "env \<Rightarrow> string \<Rightarrow> string \<Rightarrow> json \<Rightarrow> sandbox_outcome" where
  "run_in_sandbox ev code key timeout =
     (case run_attempt ev code key timeout 0 of
        Ran out err ec \<Rightarrow> Ran out err ec
      | TimedOut \<Rightarrow> run_attempt ev code key timeout 1
      | SandboxFailed msg \<Rightarrow> run_attempt ev code key timeout 1)"

text \<open>
  \<open>verify\<close>, with the constructor's optional overrides of the API key and the
  timeout. \<open>expected_output\<close> is read and stripped first; \<open>.strip()\<close> on a value that
  is not a string raises \<open>AttributeError\<close>, outside the \<open>try\<close>.
\<close>

definition code_check ::
  "env \<Rightarrow> string \<Rightarrow> json \<Rightarrow> string \<Rightarrow> verification_request \<Rightarrow> verification_result_t" where
  "code_check ev key timeout expected_output request =
     (if key = []
      then \<lparr>is_valid = False, score = None, details = ''E2B API key not configured.'',
            logs = [], error = Some ''MISSING_E2B_API_KEY''\<rparr>
      else
        (case run_in_sandbox ev (rq_payload request) key timeout of
           Ran stdout stderr exit_code \<Rightarrow>
             (let lg = [(''stdout'', JStr stdout), (''stderr'', JStr stderr),
                        (''exit_code'', JInt exit_code), (''timeout'', timeout),
                        (''expected_output'', JStr expected_output)]
              in if exit_code \<noteq> 0
                 then \<lparr>is_valid = False, score = None,
                       details = ''Code exited with non-zero exit code: '' @ show_int exit_code,
                       logs = lg, error = None\<rparr>
                 else if expected_output \<noteq> []
                 then
                   (let stdout_stripped = strip stdout
                    in if contains expected_output stdout_stripped
                       then \<lparr>is_valid = True, score = Some 1,
                             details = ''Code executed successfully. Expected output ''
                               @ [CHR 0x27] @ expected_output @ [CHR 0x27]
                               @ '' found in stdout.'',
                             logs = lg, error = None\<rparr>
                       else \<lparr>is_valid = False, score = None,
                             details = ''Code ran successfully but output doesn't match. Expected ''
                               @ [CHR 0x27] @ expected_output @ [CHR 0x27]
                               @ '' in stdout, got: '' @ [CHR 0x27]
                               @ take 200 stdout_stripped @ [CHR 0x27],
                             logs = lg, error = None\<rparr>)
                 else \<lparr>is_valid = True, score = Some 1,
                       details = ''Code executed successfully with exit code 0.'',
                       logs = lg, error = None\<rparr>)
         | TimedOut \<Rightarrow>
             \<lparr>is_valid = False, score = None,
              details = ''Code execution timed out after '' @ py_str ev timeout @ '' seconds.'',
              logs = [(''timeout'', timeout)], error = Some ''EXECUTION_TIMEOUT''\<rparr>
         | SandboxFailed msg \<Rightarrow>
             \<lparr>is_valid = False, score = None,
              details = ''Sandbox execution failed: '' @ msg,
              logs = [(''exception'', JStr msg)], error = Some ''SANDBOX_ERROR''\<rparr>))"

definition config_api_key :: "env \<Rightarrow> string option \<Rightarrow> string" where
  "config_api_key ev key_override =
     (case key_override of Some k \<Rightarrow> k | None \<Rightarrow> e2b_api_key ev)"

definition request_timeout :: "env \<Rightarrow> int option \<Rightarrow> verification_request \<Rightarrow> json" where
  "request_timeout ev timeout_override request =
     (case map_of (rq_config request) ''timeout'' of
        Some t \<Rightarrow> t
      | None \<Rightarrow>
          JInt (case timeout_override of Some t \<Rightarrow> t | None \<Rightarrow> e2b_timeout_seconds ev))"

definition code_execution_verify ::
  "env \<Rightarrow> string option \<Rightarrow> int option \<Rightarrow> verification_request
     \<Rightarrow> svc_error + verification_result_t" where
  "code_execution_verify ev key_override timeout_override request =
     (let key = config_api_key ev key_override;
          timeout = request_timeout ev timeout_override request
      in case map_of (rq_config request) ''expected_output'' of
           None \<Rightarrow> Inr (code_check ev key timeout (strip []) request)
         | Some (JStr e) \<Rightarrow> Inr (code_check ev key timeout (strip e) request)
         | Some other \<Rightarrow> Inl (PyException ''AttributeError''))"

section \<open>The semantic verifier: \<open>verify\<close>\<close>

text \<open>
  \<open>_call_llm\<close>: an attempt fails when the completion call raises or returns no
  content; three attempts, the last failure is re-raised. The content is stripped.
\<close>

definition llm_attempt :: "env \<Rightarrow> json \<Rightarrow> string \<Rightarrow> nat \<Rightarrow> string + string" where
  "llm_attempt ev criteria pl i =
     (case acompletion ev criteria pl i of
        Inl exc \<Rightarrow> Inl exc
      | Inr None \<Rightarrow> Inl ''LLM returned empty response''
      | Inr (Some content) \<Rightarrow>
          (if content = [] then Inl ''LLM returned empty response''
           else Inr (strip content)))"

definition call_llm :: "env \<Rightarrow> json \<Rightarrow> string \<Rightarrow> string + string" where
  "call_llm ev criteria pl =
     (case llm_attempt ev criteria pl 0 of
        Inr r \<Rightarrow> Inr r
      | Inl exc0 \<Rightarrow>
          (case llm_attempt ev criteria pl 1 of
             Inr r \<Rightarrow> Inr r
           | Inl exc1 \<Rightarrow> llm_attempt ev criteria pl 2))"

text \<open>
  \<open>criteria[:100]\<close> in the log call before the \<open>try\<close> raises on a value that cannot
  be sliced.
\<close>

fun sliceable :: "json \<Rightarrow> bool" where
  "sliceable (JStr s) = True"
| "sliceable (JList xs) = True"
| "sliceable other = False"

definition semantic_verify ::
  "env \<Rightarrow> string option \<Rightarrow> verification_request \<Rightarrow> svc_error + verification_result_t" where
  "semantic_verify ev model_override request =
     (let criteria = (case map_of (rq_config request) ''criteria'' of
                        Some c \<Rightarrow> c | None \<Rightarrow> JStr [])
      in if \<not> truthy criteria
         then Inr \<lparr>is_valid = False, score = None,
                   details = ''No 'criteria' field in verification_logic.'',
                   logs = [], error = Some ''MISSING_CRITERIA''\<rparr>
         else if \<not> sliceable criteria then Inl (PyException ''TypeError'')
         else
           (case call_llm ev criteria (rq_payload request) of
              Inl exc \<Rightarrow>
                Inr \<lparr>is_valid = False, score = None,
                     details = ''LLM judge failed: '' @ exc,
                     logs = [(''exception'', JStr exc)], error = Some ''LLM_JUDGE_ERROR''\<rparr>
            | Inr llm_response \<Rightarrow>
                (case parse_response (py_float ev) llm_response of
                   (verdict, sc, reasoning) \<Rightarrow>
                     Inr \<lparr>is_valid = verdict, score = Some sc, details = reasoning,
                          logs = [(''llm_response'', JStr llm_response),
                                  (''criteria'', criteria),
                                  (''model'',
                                   JStr (case py_or model_override (Some (litellm_model ev))
                                           of Some m \<Rightarrow> m | None \<Rightarrow> []))],
                          error = None\<rparr>)))"

section \<open>The schema verifier (verifiers/schema_validator.py)\<close>

text \<open>
  The validation errors are sorted by their path, a list of property names and array
  indices. Python compares two such lists at the first position where they differ, a
  name with a name or an index with an index; comparing a name with an index raises
  \<open>TypeError\<close>. \<open>path_lt\<close> is that comparison (\<open>None\<close> when it raises).
  \<open>path_key\<close> places the paths in a linear order that agrees with it wherever it is
  defined, and \<open>sort_key\<close> is the stable sort. When two of the paths cannot be
  compared the model takes the sort to raise; paths into one document never differ
  in kind at the same position.
\<close>

fun elem_lt :: "pelem \<Rightarrow> pelem \<Rightarrow> bool option" where
  "elem_lt (PKey a) (PKey b) = Some (a < b)"
| "elem_lt (PIdx i) (PIdx j) = Some (i < j)"
| "elem_lt (PKey a) (PIdx j) = None"
| "elem_lt (PIdx i) (PKey b) = None"

fun path_lt :: "pelem list \<Rightarrow> pelem list \<Rightarrow> bool option" where
  "path_lt [] [] = Some False"
| "path_lt [] (y # ys) = Some True"
| "path_lt (x # xs) [] = Some False"
| "path_lt (x # xs) (y # ys) = (if x = y then path_lt xs ys else elem_lt x y)"

fun elem_key :: "pelem \<Rightarrow> nat \<times> string \<times> int" where
  "elem_key (PIdx i) = (0, [], i)"
| "elem_key (PKey k) = (1, k, 0)"

definition path_key :: "verror \<Rightarrow> (nat \<times> string \<times> int) list" where
  "path_key e = map elem_key (v_path e)"

definition comparable_paths :: "verror list \<Rightarrow> bool" where
  "comparable_paths errs =
     list_all (\<lambda>a. list_all (\<lambda>b. path_lt (v_path a) (v_path b) \<noteq> None) errs) errs"

definition sorted_errors :: "verror list \<Rightarrow> verror list option" where
  "sorted_errors errs = (if comparable_paths errs then Some (sort_key path_key errs) else None)"

fun pelem_json :: "pelem \<Rightarrow> json" where
  "pelem_json (PKey k) = JStr k"
| "pelem_json (PIdx i) = JInt i"

definition error_detail :: "verror \<Rightarrow> json" where
  "error_detail e =
     JDict [(''path'', JList (map pelem_json (v_path e))),
            (''message'', JStr (v_message e)),
            (''schema_path'', JList (map pelem_json (v_schema_path e)))]"

definition schema_verify :: "env \<Rightarrow> verification_request \<Rightarrow> svc_error + verification_result_t" where
  "schema_verify ev request =
     (case rq_schema request of
        None \<Rightarrow>
          Inr \<lparr>is_valid = False, score = None,
               details = ''No requirements_schema provided on the contract.'',
               logs = [], error = Some ''MISSING_SCHEMA''\<rparr>
      | Some schema \<Rightarrow>
          (if schema = []
           then Inr \<lparr>is_valid = False, score = None,
                     details = ''No requirements_schema provided on the contract.'',
                     logs = [], error = Some ''MISSING_SCHEMA''\<rparr>
           else
             (case json_loads ev (rq_payload request) of
                Inl exc \<Rightarrow>
                  Inr \<lparr>is_valid = False, score = None,
                       details = ''Payload is not valid JSON: '' @ exc,
                       logs = [(''raw_payload_preview'', JStr (take 500 (rq_payload request)))],
                       error = Some ''INVALID_JSON''\<rparr>
              | Inr parsed_payload \<Rightarrow>
                  (case iter_errors ev schema parsed_payload of
                     SchemaError msg \<Rightarrow>
                       Inr \<lparr>is_valid = False, score = None,
                            details = ''The requirements_schema itself is invalid: '' @ msg,
                            logs = [], error = Some ''INVALID_SCHEMA''\<rparr>
                   | OtherError msg \<Rightarrow>
                       Inr \<lparr>is_valid = False, score = None,
                            details = ''Unexpected error during schema validation: '' @ msg,
                            logs = [], error = Some ''SCHEMA_VERIFIER_ERROR''\<rparr>
                   | Errors found \<Rightarrow>
                       (case sorted_errors found of
                          None \<Rightarrow>
                            Inr \<lparr>is_valid = False, score = None,
                                 details = ''Unexpected error during schema validation: ''
                                   @ ''TypeError'',
                                 logs = [], error = Some ''SCHEMA_VERIFIER_ERROR''\<rparr>
                        | Some errors \<Rightarrow>
                            (if errors \<noteq> []
                             then Inr \<lparr>is_valid = False, score = None,
                                       details = ''Schema validation failed with ''
                                         @ show_nat (length errors) @ '' error(s).'',
                                       logs = [(''validation_errors'',
                                                JList (map error_detail errors)),
                                               (''schema'', JDict schema)],
                                       error = None\<rparr>
                             else Inr \<lparr>is_valid = True, score = Some 1,
                                       details =
                                         ''Payload successfully validated against the JSON Schema.'',
                                       logs = [(''schema'', JDict schema),
                                               (''parsed_payload'', parsed_payload)],
                                       error = None\<rparr>))))))"

section \<open>The mock verifier and the factory (verifiers/__init__.py)\<close>

text \<open>
  \<open>MockVerifier\<close> copies \<open>should_pass\<close>, \<open>score\<close> and \<open>details\<close> from the
  descriptor into the result. The model follows it for a boolean \<open>should_pass\<close>, a
  \<open>score\<close> that is a number or null, and a string \<open>details\<close>. A score is a real
  number in the model: an integer score is kept as the number it is (Python compares
  the integer 1 and the float 1.0 equal).
\<close>

definition mock_verify :: "verification_request \<Rightarrow> svc_error + verification_result_t" where
  "mock_verify request =
     (let cfg = rq_config request
      in case (case map_of cfg ''should_pass'' of
                 None \<Rightarrow> Some True
               | Some (JBool b) \<Rightarrow> Some b
               | Some other \<Rightarrow> None) of
           None \<Rightarrow> Inl (OutsideModel ''should_pass'')
         | Some should_pass \<Rightarrow>
             (case (case map_of cfg ''score'' of
                      None \<Rightarrow> Some (Some (if should_pass then 1 else 0))
                    | Some (JNum x) \<Rightarrow> Some (Some x)
                    | Some (JInt i) \<Rightarrow> Some (Some (real_of_int i))
                    | Some JNull \<Rightarrow> Some None
                    | Some other \<Rightarrow> None) of
                None \<Rightarrow> Inl (OutsideModel ''score'')
              | Some sc \<Rightarrow>
                  (case (case map_of cfg ''details'' of
                           None \<Rightarrow>
                             Some (if should_pass
                                   then ''Mock verification passed (dry-run mode)''
                                   else ''Mock verification failed (dry-run mode)'')
                         | Some (JStr d) \<Rightarrow> Some d
                         | Some other \<Rightarrow> None) of
                     None \<Rightarrow> Inl (OutsideModel ''details'')
                   | Some d \<Rightarrow>
                       Inr \<lparr>is_valid = should_pass, score = sc, details = d,
                            logs = [(''mode'', JStr ''dry-run''), (''verifier'', JStr ''mock'')],
                            error = None\<rparr>)))"

datatype verifier = CodeExecutionVerifier | SemanticVerifier | SchemaVerifier | MockVerifier

definition registry :: "(string \<times> verifier) list" where
  "registry =
     [(''code_execution'', CodeExecutionVerifier),
      (''semantic'', SemanticVerifier),
      (''schema'', SchemaVerifier),
      (''mock'', MockVerifier)]"

text \<open>
  \<open>VerifierFactory.create\<close>: a missing or falsy \<open>type\<close> raises the \<open>ValueError\<close>
  that asks for a \<open>type\<close> key; a type that is not a key of the registry (a string
  that is not registered, a number, a boolean) raises the \<open>ValueError\<close> that names it;
  a list or a dictionary as \<open>type\<close> cannot be hashed for the registry lookup, which
  raises \<open>TypeError\<close>.
\<close>

definition verifier_create :: "dict \<Rightarrow> svc_error + verifier" where
  "verifier_create logic =
     (case map_of logic ''type'' of
        None \<Rightarrow> Inl MissingVerifierType
      | Some v_type \<Rightarrow>
          (if \<not> truthy v_type then Inl MissingVerifierType
           else
             (case v_type of
                JStr t \<Rightarrow>
                  (case map_of registry t of
                     None \<Rightarrow> Inl (UnknownVerifierType v_type)
                   | Some cls \<Rightarrow> Inr cls)
              | JList xs \<Rightarrow> Inl (PyException ''TypeError'')
              | JDict d \<Rightarrow> Inl (PyException ''TypeError'')
              | other \<Rightarrow> Inl (UnknownVerifierType v_type))))"

text \<open>The factory builds every verifier without constructor arguments.\<close>

definition verifier_verify ::
  "env \<Rightarrow> verifier \<Rightarrow> verification_request \<Rightarrow> svc_error + verification_result_t" where
  "verifier_verify ev v request =
     (case v of
        CodeExecutionVerifier \<Rightarrow> code_execution_verify ev None None request
      | SemanticVerifier \<Rightarrow> semantic_verify ev None request
      | SchemaVerifier \<Rightarrow> schema_verify ev request
      | MockVerifier \<Rightarrow> mock_verify request)"

section \<open>The verification service (services/verification_service.py)\<close>


text \<open>
  \<open>verify_latest_submission\<close>; \<open>placeholder\<close> is the \<open>uuid.uuid4()\<close> generated for
  the case without submissions.
\<close>

definition no_submissions_result :: verification_result_t where
  "no_submissions_result =
     \<lparr>is_valid = False, score = None,
      details = ''No submissions found for this contract.'',
      logs = [], error = Some ''NO_SUBMISSIONS''\<rparr>"

definition verify_latest_submission ::
  "env \<Rightarrow> store \<Rightarrow> uuid \<Rightarrow> uuid \<Rightarrow> (svc_error + verification_result_t) \<times> store" where
  "verify_latest_submission ev st cid placeholder =
     (case start_verification st cid of
        (Inl err, st1) \<Rightarrow> (Inl err, st1)
      | (Inr contract, st1) \<Rightarrow>
          (case submission_get_by_contract st1 cid of
             [] \<Rightarrow>
               (case record_verification_failed st1 cid placeholder
                       (to_dict no_submissions_result) of
                  (Inl err, st2) \<Rightarrow> (Inl err, st2)
                | (Inr c, st2) \<Rightarrow> (Inr no_submissions_result, st2))
           | latest_submission # older \<Rightarrow>
               (case verifier_create (verification_logic contract) of
                  Inl err \<Rightarrow> (Inl err, st1)
                | Inr v \<Rightarrow>
                    (let request = \<lparr>rq_contract_id = uuid_str cid,
                                    rq_payload = payload latest_submission,
                                    rq_config = verification_logic contract,
                                    rq_schema = requirements_schema contract\<rparr>
                     in case verifier_verify ev v request of
                          Inl err \<Rightarrow> (Inl err, st1)
                        | Inr result \<Rightarrow>
                            (if is_valid result
                             then
                               (case record_verification_passed st1 cid
                                       (s_id latest_submission) (to_dict result) of
                                  (Inl err, st2) \<Rightarrow> (Inl err, st2)
                                | (Inr c, st2) \<Rightarrow> (Inr result, st2))
                             else
                               (case record_verification_failed st1 cid
                                       (s_id latest_submission) (to_dict result) of
                                  (Inl err, st2) \<Rightarrow> (Inl err, st2)
                                | (Inr c, st2) \<Rightarrow> (Inr result, st2)))))))"

section \<open>The workflow (orchestration/escrow_graph.py)\<close>

text \<open>
  \<open>run_escrow_workflow\<close> submits, verifies and settles inside one \<open>try\<close>; any
  exception ends it with \<open>final_status = "ERROR"\<close>. \<open>new_sid\<close>, \<open>placeholder\<close> and
  \<open>new_tx\<close> are the values generated on the way (the submission id, the placeholder
  id and the simulated settlement hash). The returned state is given without its
  copies of the arguments, and with the exception itself where the source keeps its
  text.
\<close>

record workflow_state =
  w_submission_id :: "string option"
  w_verification_passed :: bool
  w_verification_result :: dict
  w_settlement_tx_hash :: string
  w_final_status :: string
  w_error :: "svc_error option"

definition run_escrow_workflow ::
  "env \<Rightarrow> store \<Rightarrow> uuid \<Rightarrow> string \<Rightarrow> string option \<Rightarrow> uuid \<Rightarrow> uuid \<Rightarrow> string
     \<Rightarrow> workflow_state \<times> store" where
  "run_escrow_workflow ev st cid pl worker new_sid placeholder new_tx =
     (let state0 = \<lparr>w_submission_id = None, w_verification_passed = False,
                     w_verification_result = [], w_settlement_tx_hash = [],
                     w_final_status = [], w_error = None\<rparr>
      in case submit_work st new_sid cid pl worker of
           (Inl err, st1) \<Rightarrow>
             (state0\<lparr>w_error := Some err, w_final_status := ''ERROR''\<rparr>, st1)
         | (Inr submission, st1) \<Rightarrow>
             (let state1 = state0\<lparr>w_submission_id := Some (uuid_str (s_id submission))\<rparr>
              in case verify_latest_submission ev st1 cid placeholder of
                   (Inl err, st2) \<Rightarrow>
                     (state1\<lparr>w_error := Some err, w_final_status := ''ERROR''\<rparr>, st2)
                 | (Inr result, st2) \<Rightarrow>
                     (let state2 = state1\<lparr>w_verification_result := to_dict result,
                                           w_verification_passed := is_valid result\<rparr>
                      in case get_contract_or_raise st2 cid of
                           Inl err \<Rightarrow>
                             (state2\<lparr>w_error := Some err, w_final_status := ''ERROR''\<rparr>, st2)
                         | Inr contract \<Rightarrow>
                             (if is_valid result
                              then
                                (state2\<lparr>w_settlement_tx_hash := new_tx,
                                        w_final_status := ''COMPLETED''\<rparr>,
                                 modify_contract cid
                                   (\<lambda>c. c\<lparr>settlement_tx_hash := Some new_tx\<rparr>) st2)
                              else
                                (state2\<lparr>w_final_status := status contract\<rparr>, st2)))))"

section \<open>Operations on one contract\<close>

text \<open>
  The public methods of the escrow service that work on an existing contract, as a
  datatype of calls, and a run of calls on one contract in which every call succeeds.
\<close>

datatype op =
  FundContract string string
  | AcceptContract string
  | SubmitWork uuid string "string option"
  | StartVerification
  | RecordVerificationPassed uuid dict
  | RecordVerificationFailed uuid dict
  | RaiseDispute string string
  | GetContract
  | GetStatus
  | GetEvents

definition forget :: "(svc_error + 'a) \<times> store \<Rightarrow> (svc_error + unit) \<times> store" where
  "forget r = (case r of (Inl err, st') \<Rightarrow> (Inl err, st') | (Inr x, st') \<Rightarrow> (Inr (), st'))"

definition apply_op :: "store \<Rightarrow> uuid \<Rightarrow> op \<Rightarrow> (svc_error + unit) \<times> store" where
  "apply_op st cid operation =
     (case operation of
           FundContract tx wallet \<Rightarrow> forget (fund_contract st cid tx wallet)
         | AcceptContract worker \<Rightarrow> forget (accept_contract st cid worker)
         | SubmitWork new_sid pl worker \<Rightarrow> forget (submit_work st new_sid cid pl worker)
         | StartVerification \<Rightarrow> forget (start_verification st cid)
         | RecordVerificationPassed sid vr \<Rightarrow> forget (record_verification_passed st cid sid vr)
         | RecordVerificationFailed sid vr \<Rightarrow> forget (record_verification_failed st cid sid vr)
         | RaiseDispute reason raised_by \<Rightarrow> forget (raise_dispute st cid reason raised_by)
         | GetContract \<Rightarrow> forget (get_contract st cid)
         | GetStatus \<Rightarrow> forget (get_status st cid)
         | GetEvents \<Rightarrow> forget (get_events st cid))"

fun run_ops :: "store \<Rightarrow> uuid \<Rightarrow> op list \<Rightarrow> store option" where
  "run_ops st cid [] = Some st"
| "run_ops st cid (operation # rest) =
     (case apply_op st cid operation of
        (Inl err, st') \<Rightarrow> None
      | (Inr u, st') \<Rightarrow> run_ops st' cid rest)"

text \<open>
  The canonical event type of each state-machine event, as section 4.1 of the
  specification lists it, and the property of an event log that each event starts at
  the status the previous one ended at.
\<close>

fun canonical_event_type :: "sm_event \<Rightarrow> event_type" where
  "canonical_event_type on_chain_confirmed = CONTRACT_FUNDED"
| "canonical_event_type worker_accepts = WORKER_ASSIGNED"
| "canonical_event_type worker_submits = WORK_SUBMITTED"
| "canonical_event_type auto_verify = VERIFICATION_STARTED"
| "canonical_event_type verification_passed = VERIFICATION_PASSED"
| "canonical_event_type verification_failed_retry = VERIFICATION_FAILED"
| "canonical_event_type max_retries_exceeded = MAX_RETRIES_EXCEEDED"
| "canonical_event_type buyer_disputes = DISPUTE_RAISED"
| "canonical_event_type dispute_resolved_for_worker = DISPUTE_RESOLVED_WORKER"
| "canonical_event_type dispute_resolved_for_buyer = DISPUTE_RESOLVED_BUYER"
| "canonical_event_type timeout_expired = CONTRACT_EXPIRED"

fun chained :: "escrow_event list \<Rightarrow> bool" where
  "chained [] = True"
| "chained [e] = True"
| "chained (e1 # e2 # es) = (old_status e2 = Some (new_status e1) \<and> chained (e2 # es))"

text \<open>
  What "the operation is logged" means for a successful call that found the contract
  \<open>c\<close> in \<open>st\<close> and left \<open>st'\<close>: either the status and the event log are as before,
  or the status moved along a transition of the machine and the log grew by exactly
  one event of this contract, with the canonical type of the fired event, the status
  before as \<open>old_status\<close> and the status after as \<open>new_status\<close>.
\<close>

definition logged :: "store \<Rightarrow> store \<Rightarrow> uuid \<Rightarrow> escrow_contract \<Rightarrow> bool" where
  "logged st st' cid c =
     (\<exists>c'. contracts st' cid = Some c'
        \<and> ((status c' = status c \<and> events st' = events st)
           \<or> (\<exists>e old new ev.
                 status c = status_value old \<and> status c' = status_value new
                 \<and> fire old e = Inr new
                 \<and> events st' = events st @ [ev]
                 \<and> e_contract_id ev = cid
                 \<and> e_event_type ev = canonical_event_type e
                 \<and> old_status ev = Some (status c)
                 \<and> new_status ev = status c')))"

text \<open>
  A contract's log is consistent with its status: it starts with the creation event
  (no \<open>old_status\<close>), every later event starts where the previous one ended, and the
  last one ends at the contract's status.
\<close>

definition consistent :: "store \<Rightarrow> uuid \<Rightarrow> bool" where
  "consistent st cid =
     (\<exists>c. contracts st cid = Some c
        \<and> event_get_by_contract st cid \<noteq> []
        \<and> new_status (last (event_get_by_contract st cid)) = status c
        \<and> chained (event_get_by_contract st cid)
        \<and> old_status (hd (event_get_by_contract st cid)) = None
        \<and> e_event_type (hd (event_get_by_contract st cid)) = CONTRACT_CREATED)"

text \<open>The contract and the event that \<open>create_contract\<close> writes.\<close>

definition created_contract :: "string \<Rightarrow> real \<Rightarrow> string \<Rightarrow> dict \<Rightarrow> dict option \<Rightarrow> int \<Rightarrow> escrow_contract" where
  "created_contract buyer amount descr vlogic req_schema maxr =
     \<lparr>buyer_wallet = buyer, worker_wallet = None, amount_usdc = amount,
      escrow_wallet_address = None, funding_tx_hash = None,
      settlement_tx_hash = None, status = ''CREATED'',
      description = Some descr, requirements_schema = req_schema,
      verification_logic = vlogic, max_retries = maxr, retry_count = 0\<rparr>"

definition created_event :: "uuid \<Rightarrow> string \<Rightarrow> string \<Rightarrow> escrow_event" where
  "created_event new_id buyer descr =
     \<lparr>e_contract_id = new_id, e_event_type = CONTRACT_CREATED, old_status = None,
      new_status = ''CREATED'', actor = buyer,
      metadata_json = Some [(''description'', JStr descr)]\<rparr>"

section \<open>What a failed verification leaves behind\<close>

text \<open>
  The contract and the event that \<open>record_verification_failed\<close> writes for a contract
  \<open>c\<close> that was in \<open>VERIFYING\<close> with a retry left, as expressions of \<open>c\<close>.
\<close>

definition failed_event :: "uuid \<Rightarrow> escrow_contract \<Rightarrow> dict \<Rightarrow> escrow_event" where
  "failed_event cid c vr =
     (let n = retry_count c + 1; retry = n < max_retries c
      in \<lparr>e_contract_id = cid,
          e_event_type = (if retry then VERIFICATION_FAILED else MAX_RETRIES_EXCEEDED),
          old_status = Some ''VERIFYING'',
          new_status = (if retry then ''IN_PROGRESS'' else ''FAILED''),
          actor = ''SYSTEM'',
          metadata_json = Some (retry_metadata n vr)\<rparr>)"

definition failed_contract :: "escrow_contract \<Rightarrow> escrow_contract" where
  "failed_contract c =
     (let n = retry_count c + 1
      in c\<lparr>retry_count := n,
           status := (if n < max_retries c then ''IN_PROGRESS'' else ''FAILED'')\<rparr>)"

text \<open>The row and the events that a submission and the start of its verification write.\<close>

definition submitted_row :: "uuid \<Rightarrow> uuid \<Rightarrow> string \<Rightarrow> string option \<Rightarrow> escrow_contract \<Rightarrow> work_submission" where
  "submitted_row new_sid cid pl worker c =
     \<lparr>s_id = new_sid, s_contract_id = cid, payload = pl,
      submitted_by = py_or worker (worker_wallet c),
      verification_result = None, s_is_valid = None\<rparr>"

definition submitted_event :: "uuid \<Rightarrow> uuid \<Rightarrow> string option \<Rightarrow> escrow_contract \<Rightarrow> escrow_event" where
  "submitted_event new_sid cid worker c =
     \<lparr>e_contract_id = cid, e_event_type = WORK_SUBMITTED,
      old_status = Some ''IN_PROGRESS'', new_status = ''SUBMITTED'',
      actor = (case py_or (py_or worker (worker_wallet c)) (Some ''UNKNOWN'')
                 of Some a \<Rightarrow> a | None \<Rightarrow> ''UNKNOWN''),
      metadata_json = Some [(''submission_id'', JStr (uuid_str new_sid))]\<rparr>"

definition started_event :: "uuid \<Rightarrow> escrow_event" where
  "started_event cid =
     \<lparr>e_contract_id = cid, e_event_type = VERIFICATION_STARTED,
      old_status = Some ''SUBMITTED'', new_status = ''VERIFYING'',
      actor = ''SYSTEM'', metadata_json = None\<rparr>"

text \<open>
  A contract "whose verifier rejects every submission": the factory builds a
  verifier for its descriptor, and that verifier returns an invalid result on every
  request made for the contract.
\<close>

definition rejecting :: "env \<Rightarrow> escrow_contract \<Rightarrow> bool" where
  "rejecting ev c =
     (\<exists>v. verifier_create (verification_logic c) = Inr v
          \<and> (\<forall>cid pl. \<exists>result.
                 verifier_verify ev v
                   \<lparr>rq_contract_id = cid, rq_payload = pl,
                    rq_config = verification_logic c,
                    rq_schema = requirements_schema c\<rparr> = Inr result
                 \<and> \<not> is_valid result))"

section \<open>Error codes\<close>

text \<open>
  The error codes the three verifiers put into a result, collected from their
  \<open>error=...\<close> arguments, and the subtypes of \<open>VerificationError\<close> in the taxonomy of
  section 7 of the specification.
\<close>

definition code_error_codes :: "string list" where
  "code_error_codes =
     [''MISSING_E2B_API_KEY'', ''EXECUTION_TIMEOUT'', ''SANDBOX_ERROR'',
      ''MISSING_CRITERIA'', ''LLM_JUDGE_ERROR'',
      ''MISSING_SCHEMA'', ''INVALID_JSON'', ''INVALID_SCHEMA'', ''SCHEMA_VERIFIER_ERROR'']"

definition spec_error_codes :: "string list" where
  "spec_error_codes =
     [''SANDBOX_ERROR'', ''EXECUTION_TIMEOUT'', ''LLM_JUDGE_ERROR'', ''INVALID_JSON'',
      ''INVALID_SCHEMA'', ''MISSING_SCHEMA'', ''MISSING_CRITERIA'', ''MISSING_SANDBOX_KEY'']"

section \<open>Example inputs\<close>

text \<open>A \<open>float\<close> that rejects every string, for responses without a score line.\<close>

definition no_float :: "string \<Rightarrow> real option" where
  "no_float s = None"

text \<open>
  An environment for the examples: the sandbox prints the submitted text and exits
  with 0, the judge answers with the submitted text, \<open>json.loads\<close> accepts the empty
  object only, and the validator reports two errors on it.
\<close>

definition demo_sandbox :: "string \<Rightarrow> string \<Rightarrow> json \<Rightarrow> nat \<Rightarrow> sandbox_exec" where
  "demo_sandbox code key timeout i = Executed [code] [] None"

definition demo_acompletion :: "json \<Rightarrow> string \<Rightarrow> nat \<Rightarrow> string + string option" where
  "demo_acompletion criteria pl i = Inr (Some pl)"

definition demo_py_str :: "json \<Rightarrow> string" where
  "demo_py_str v = (case v of JInt i \<Rightarrow> show_int i | JStr t \<Rightarrow> t | _ \<Rightarrow> ''?'')"

definition demo_json_loads :: "string \<Rightarrow> string + json" where
  "demo_json_loads pl = (if pl = ''{}'' then Inr (JDict []) else Inl ''Expecting value'')"

definition demo_errors :: "verror list" where
  "demo_errors =
     [\<lparr>v_path = [PKey ''pets'', PIdx 1], v_message = ''1 is not of type string'',
       v_schema_path = [PKey ''properties'', PKey ''pets'', PKey ''items'', PKey ''type'']\<rparr>,
      \<lparr>v_path = [], v_message = ''age is a required property'',
       v_schema_path = [PKey ''required'']\<rparr>]"

definition demo_iter_errors :: "dict \<Rightarrow> json \<Rightarrow> validator_outcome" where
  "demo_iter_errors schema v =
     (if map_of schema ''required'' = None then Errors [] else Errors demo_errors)"

definition demo_env :: env where
  "demo_env =
     \<lparr>e2b_api_key = [], e2b_timeout_seconds = 30, litellm_model = ''gemini/gemini-2.0-flash'',
      sandbox_run = demo_sandbox, acompletion = demo_acompletion, py_float = no_float,
      py_str = demo_py_str, json_loads = demo_json_loads, iter_errors = demo_iter_errors\<rparr>"

definition padded_request :: verification_request where
  "padded_request =
     \<lparr>rq_contract_id = ''1'', rq_payload = ''x'',
      rq_config = [(''type'', JStr ''code_execution''), (''expected_output'', JStr '' x '')],
      rq_schema = None\<rparr>"



definition missing_key_result :: verification_result_t where
  "missing_key_result =
     \<lparr>is_valid = False, score = None, details = ''E2B API key not configured.'',
      logs = [], error = Some ''MISSING_E2B_API_KEY''\<rparr>"

text \<open>
  A contract with \<open>max_retries = 2\<close> and a verifier that rejects, taken through
  creation, funding, acceptance, a submission and the start of verification.
\<close>

definition empty_tables :: tables where
  "empty_tables = \<lparr>t_contracts = Map.empty, t_submissions = [], t_events = []\<rparr>"

definition empty_store :: store where
  "empty_store =
     \<lparr>contracts = Map.empty, submissions = [], events = [], committed = empty_tables\<rparr>"

definition mock_reject :: dict where
  "mock_reject = [(''type'', JStr ''mock''), (''should_pass'', JBool False)]"

definition created_store :: store where
  "created_store =
     snd (create_contract empty_store 1 ''0xB'' 100 ''Print Hello'' mock_reject None 2)"

definition funded_store :: store where
  "funded_store = snd (fund_contract created_store 1 ''0xT'' ''0xE'')"

definition accepted_store :: store where
  "accepted_store = snd (accept_contract funded_store 1 ''0xW'')"

definition submitted_store :: store where
  "submitted_store = snd (submit_work accepted_store 7 1 ''print(1)'' (Some ''0xW''))"

definition verifying_store :: store where
  "verifying_store = snd (start_verification submitted_store 1)"

definition demo_contract :: "string \<Rightarrow> int \<Rightarrow> escrow_contract" where
  "demo_contract s n =
     \<lparr>buyer_wallet = ''0xB'', worker_wallet = Some ''0xW'', amount_usdc = 100,
      escrow_wallet_address = Some ''0xE'', funding_tx_hash = Some ''0xT'',
      settlement_tx_hash = None, status = s, description = Some ''Print Hello'',
      requirements_schema = None, verification_logic = mock_reject, max_retries = 2,
      retry_count = n\<rparr>"

definition demo_event :: "event_type \<Rightarrow> string option \<Rightarrow> string \<Rightarrow> string \<Rightarrow> dict option \<Rightarrow> escrow_event" where
  "demo_event t old new act md =
     \<lparr>e_contract_id = 1, e_event_type = t, old_status = old, new_status = new, actor = act,
      metadata_json = md\<rparr>"

definition demo_log :: "escrow_event list" where
  "demo_log =
    [demo_event CONTRACT_CREATED None ''CREATED'' ''0xB'' (Some [(''description'', JStr ''Print Hello'')]),
     demo_event CONTRACT_FUNDED (Some ''CREATED'') ''FUNDED'' ''SYSTEM''
       (Some [(''tx_hash'', JStr ''0xT''), (''escrow_wallet'', JStr ''0xE'')]),
     demo_event WORKER_ASSIGNED (Some ''FUNDED'') ''IN_PROGRESS'' ''0xW'' None]"

definition demo_submission :: "uuid \<Rightarrow> bool option \<Rightarrow> dict option \<Rightarrow> work_submission" where
  "demo_submission sid v vr =
     \<lparr>s_id = sid, s_contract_id = 1, payload = ''print(1)'', submitted_by = Some ''0xW'',
      verification_result = vr, s_is_valid = v\<rparr>"


text \<open>
  The same contract created with \<open>max_retries = 0\<close>, each of creation, funding and
  acceptance committed by its caller, then a submission and the start of its
  verification in one session; the result with which the mock verifier rejects; and
  a database that holds the submitted contract without its submission row.
\<close>

definition zero_contract :: "string \<Rightarrow> escrow_contract" where
  "zero_contract s = (demo_contract s 0)\<lparr>max_retries := 0\<rparr>"

definition zero_created_store :: store where
  "zero_created_store =
     commit (snd (create_contract empty_store 1 ''0xB'' 100 ''Print Hello'' mock_reject None 0))"

definition zero_funded_store :: store where
  "zero_funded_store = commit (snd (fund_contract zero_created_store 1 ''0xT'' ''0xE''))"

definition zero_accepted_store :: store where
  "zero_accepted_store = commit (snd (accept_contract zero_funded_store 1 ''0xW''))"

definition zero_submitted_store :: store where
  "zero_submitted_store =
     snd (submit_work zero_accepted_store 7 1 ''print(1)'' (Some ''0xW''))"

definition zero_verifying_store :: store where
  "zero_verifying_store = snd (start_verification zero_submitted_store 1)"

definition mock_rejection :: verification_result_t where
  "mock_rejection =
     \<lparr>is_valid = False, score = Some 0, details = ''Mock verification failed (dry-run mode)'',
      logs = [(''mode'', JStr ''dry-run''), (''verifier'', JStr ''mock'')], error = None\<rparr>"


text \<open>The database that holds the submitted contract of the first example.\<close>

definition submitted_db :: tables where
  "submitted_db = session_tables submitted_store"

text \<open>Two and three bad submissions on the accepted contract.\<close>

definition first_round :: "workflow_state \<times> store" where
  "first_round =
     run_escrow_workflow demo_env accepted_store 1 ''print(1)'' (Some ''0xW'') 7 70 ''0xS1''"

definition second_round :: "workflow_state \<times> store" where
  "second_round =
     run_escrow_workflow demo_env (snd first_round) 1 ''print(2)'' (Some ''0xW'') 8 80 ''0xS2''"

definition third_round :: "workflow_state \<times> store" where
  "third_round =
     run_escrow_workflow demo_env (snd second_round) 1 ''print(3)'' (Some ''0xW'') 9 90 ''0xS3''"

definition two_verdicts :: string where
  "two_verdicts = ''VERDICT: TRUE'' @ [CHR 0x0A] @ ''VERDICT: FALSE''"

section \<open>Properties of the state machine\<close>

lemma fire_listed: "(e, s, t) \<in> set spec_table \<Longrightarrow> fire s e = Inr t"
  by (auto simp: spec_table_def fire_def declared_transitions_def)

lemma fire_unlisted:
  "\<forall>t. (e, s, t) \<notin> set spec_table \<Longrightarrow> fire s e = Inl (TransitionNotAllowed e s)"
  by (cases s; cases e; simp add: spec_table_def fire_def declared_transitions_def)

lemma EscrowStateMachine_known: "EscrowStateMachine (status_value s) = Inr s"
  by (cases s; simp add: EscrowStateMachine_def states_def)

lemma EscrowStateMachine_unknown:
  "v \<notin> status_value ` set states \<Longrightarrow> EscrowStateMachine v = Inl (UnknownStatus v)"
  by (auto simp: EscrowStateMachine_def states_def)

lemma terminal_no_events:
  "get_allowed_events COMPLETED = []" "get_allowed_events FAILED = []"
  by (simp_all add: get_allowed_events_def declared_transitions_def)

text \<open>
  Claim C1. The machine realises exactly the table of section 4.1: an event listed for
  a state moves to the listed target; an event not listed for the state fails with
  \<open>TransitionNotAllowed\<close> carrying the attempted event and the current state; the
  constructor accepts exactly the eight status strings and fails with \<open>UnknownStatus\<close>
  on any other string; and \<open>COMPLETED\<close> and \<open>FAILED\<close> allow no event.
\<close>

theorem state_machine_realizes_table:
  "(\<forall>e s t. (e, s, t) \<in> set spec_table \<longrightarrow> fire s e = Inr t)
   \<and> (\<forall>e s. (\<forall>t. (e, s, t) \<notin> set spec_table) \<longrightarrow> fire s e = Inl (TransitionNotAllowed e s))
   \<and> (\<forall>s. EscrowStateMachine (status_value s) = Inr s)
   \<and> (\<forall>v. v \<notin> status_value ` set states \<longrightarrow> EscrowStateMachine v = Inl (UnknownStatus v))
   \<and> get_allowed_events COMPLETED = [] \<and> get_allowed_events FAILED = []"
  using fire_listed fire_unlisted EscrowStateMachine_known EscrowStateMachine_unknown
    terminal_no_events
  by blast

theorem state_machine_realizes_table_witness:
  "(verification_passed, VERIFYING, COMPLETED) \<in> set spec_table
   \<and> fire VERIFYING verification_passed = Inr COMPLETED
   \<and> (\<forall>t. (worker_submits, FAILED, t) \<notin> set spec_table)
   \<and> fire FAILED worker_submits = Inl (TransitionNotAllowed worker_submits FAILED)
   \<and> ''PAID'' \<notin> status_value ` set states
   \<and> EscrowStateMachine ''PAID'' = Inl (UnknownStatus ''PAID'')"
proof -
  have a: "(verification_passed, VERIFYING, COMPLETED) \<in> set spec_table"
    by (simp add: spec_table_def)
  have b: "\<forall>t. (worker_submits, FAILED, t) \<notin> set spec_table"
    by (simp add: spec_table_def)
  have c: "''PAID'' \<notin> status_value ` set states"
    by (simp add: states_def)
  from a b c state_machine_realizes_table show ?thesis
    by blast
qed

section \<open>Properties of the semantic parser\<close>

lemma fst_parse_line:
  "fst (parse_line f acc l) = (if is_verdict_line l then reads_verdict_true l else fst acc)"
  by (cases acc) (simp add: parse_line_def is_verdict_line_def reads_verdict_true_def Let_def)

lemma fst_foldl_parse_line:
  "fst (foldl (parse_line f) acc ls) =
     (case find is_verdict_line (rev ls) of
        None \<Rightarrow> fst acc
      | Some l \<Rightarrow> reads_verdict_true l)"
proof (induction ls arbitrary: acc rule: rev_induct)
  case Nil
  then show ?case by simp
next
  case (snoc l ls)
  then show ?case by (simp add: fst_parse_line)
qed

lemma fst_parse_response:
  "fst (parse_response f r) =
     (case find is_verdict_line (rev (split_nl r)) of
        None \<Rightarrow> False
      | Some l \<Rightarrow> reads_verdict_true l)"
proof -
  obtain v sc re where h: "foldl (parse_line f) (False, 0, []) (split_nl r) = (v, sc, re)"
    by (cases "foldl (parse_line f) (False, 0, []) (split_nl r)") auto
  have "fst (parse_response f r) = v"
    by (simp add: parse_response_def h Let_def)
  moreover have "v = fst (foldl (parse_line f) (False, 0, []) (split_nl r))"
    by (simp add: h)
  ultimately show ?thesis
    by (simp add: fst_foldl_parse_line split: option.splits)
qed

text \<open>
  In the \<open>VERDICT\<close> branch the line has a colon, so \<open>split(":", 1)[1]\<close> does not
  raise there.
\<close>

lemma upper_char_colon:
  assumes "CHR '':'' \<in> set (upper_char c)"
  shows "c = CHR '':''"
proof (cases "map_of (zip ''abcdefghijklmnopqrstuvwxyz'' ''ABCDEFGHIJKLMNOPQRSTUVWXYZ'') c")
  case (Some u)
  with assms have "u = CHR '':''"
    by (simp add: upper_char_def)
  with Some show ?thesis
    by (simp split: if_splits)
next
  case None
  define n where "n = (of_char c :: nat)"
  consider "n = 223" | "n \<noteq> 223" "224 \<le> n \<and> n \<le> 254 \<and> n \<noteq> 247"
    | "n \<noteq> 223" "\<not> (224 \<le> n \<and> n \<le> 254 \<and> n \<noteq> 247)"
    by blast
  then show ?thesis
  proof cases
    case 1
    with None assms show ?thesis
      by (simp add: upper_char_def n_def)
  next
    case 2
    with None assms have "CHR '':'' = char_of (n - 32)"
      by (simp add: upper_char_def n_def Let_def)
    then have "(of_char (CHR '':'') :: nat) = of_char (char_of (n - 32))"
      by simp
    then have "(58 :: nat) = (n - 32) mod 256"
      by simp
    with 2 show ?thesis
      by auto
  next
    case 3
    from 3 have "upper_char c = [c]"
      using None by (auto simp: upper_char_def n_def Let_def)
    with assms show ?thesis
      by simp
  qed
qed

lemma verdict_line_has_colon:
  assumes "is_verdict_line l"
  shows "CHR '':'' \<in> set (strip l)"
proof -
  from assms have t: "take (length ''VERDICT:'') (upper (strip l)) = ''VERDICT:''"
    by (simp only: is_verdict_line_def startswith_def)
  have "CHR '':'' \<in> set ''VERDICT:''"
    by simp
  with t have "CHR '':'' \<in> set (take (length ''VERDICT:'') (upper (strip l)))"
    by (simp only:)
  then have "CHR '':'' \<in> set (upper (strip l))"
    by (rule in_set_takeD)
  then obtain c where "c \<in> set (strip l)" "CHR '':'' \<in> set (upper_char c)"
    by (auto simp: upper_def)
  then show ?thesis
    using upper_char_colon by blast
qed

lemma find_SomeD: "find P xs = Some x \<Longrightarrow> P x \<and> x \<in> set xs"
  by (induction xs) (auto split: if_splits)

text \<open>
  Claim C6 (amended). The parsed verdict is decided by the last line that starts with
  \<open>VERDICT:\<close>: it is true exactly when that line reads \<open>VERDICT: TRUE\<close>, and false
  when the response has no \<open>VERDICT\<close> line. Hence a response with no line reading
  \<open>VERDICT: TRUE\<close> gives false, and a response with a \<open>VERDICT\<close> line all of whose
  \<open>VERDICT\<close> lines read \<open>VERDICT: TRUE\<close> gives true.
\<close>

theorem parse_response_verdict:
  "fst (parse_response pf response) =
     (case find is_verdict_line (rev (split_nl response)) of
        None \<Rightarrow> False
      | Some l \<Rightarrow> reads_verdict_true l)
   \<and> ((\<forall>l \<in> set (split_nl response). \<not> reads_verdict_true l)
        \<longrightarrow> \<not> fst (parse_response pf response))
   \<and> ((\<exists>l \<in> set (split_nl response). is_verdict_line l)
        \<and> (\<forall>l \<in> set (split_nl response). is_verdict_line l \<longrightarrow> reads_verdict_true l)
        \<longrightarrow> fst (parse_response pf response))"
proof (intro conjI impI)
  show "fst (parse_response pf response) =
     (case find is_verdict_line (rev (split_nl response)) of
        None \<Rightarrow> False
      | Some l \<Rightarrow> reads_verdict_true l)"
    by (rule fst_parse_response)
next
  assume none: "\<forall>l \<in> set (split_nl response). \<not> reads_verdict_true l"
  show "\<not> fst (parse_response pf response)"
  proof (cases "find is_verdict_line (rev (split_nl response))")
    case None
    then show ?thesis by (simp add: fst_parse_response)
  next
    case (Some l)
    then have "l \<in> set (split_nl response)"
      using find_SomeD by fastforce
    with none Some show ?thesis by (simp add: fst_parse_response)
  qed
next
  assume h: "(\<exists>l \<in> set (split_nl response). is_verdict_line l)
     \<and> (\<forall>l \<in> set (split_nl response). is_verdict_line l \<longrightarrow> reads_verdict_true l)"
  show "fst (parse_response pf response)"
  proof (cases "find is_verdict_line (rev (split_nl response))")
    case None
    with h show ?thesis by (auto simp: find_None_iff)
  next
    case (Some l)
    then have "l \<in> set (split_nl response)" "is_verdict_line l"
      using find_SomeD by fastforce+
    with h Some show ?thesis by (simp add: fst_parse_response)
  qed
qed

theorem parse_response_verdict_witness:
  "split_nl ''verdict:  true '' = [''verdict:  true '']
   \<and> reads_verdict_true ''verdict:  true ''
   \<and> fst (parse_response no_float ''verdict:  true '')
   \<and> split_nl ''VERDICT: MAYBE'' = [''VERDICT: MAYBE'']
   \<and> \<not> reads_verdict_true ''VERDICT: MAYBE''
   \<and> \<not> fst (parse_response no_float ''VERDICT: MAYBE'')"
proof -
  have a: "split_nl ''verdict:  true '' = [''verdict:  true '']"
    by code_simp
  have b: "reads_verdict_true ''verdict:  true ''"
    by code_simp
  have c: "is_verdict_line ''verdict:  true ''"
    using b by (simp add: reads_verdict_true_def)
  have d: "split_nl ''VERDICT: MAYBE'' = [''VERDICT: MAYBE'']"
    by code_simp
  have e: "\<not> reads_verdict_true ''VERDICT: MAYBE''"
    by code_simp
  have t: "fst (parse_response no_float ''verdict:  true '')"
    using parse_response_verdict [of no_float "''verdict:  true ''"] a b c by simp
  have f: "\<not> fst (parse_response no_float ''VERDICT: MAYBE'')"
    using parse_response_verdict [of no_float "''VERDICT: MAYBE''"] d e by simp
  from a b t d e f show ?thesis by blast
qed

text \<open>
  The claim as stated fails: a response with a line reading \<open>VERDICT: TRUE\<close>
  followed by a line \<open>VERDICT: FALSE\<close> is parsed as false.
\<close>

theorem parse_response_verdict_counterexample:
  "''VERDICT: TRUE'' \<in> set (split_nl two_verdicts)
   \<and> reads_verdict_true ''VERDICT: TRUE''
   \<and> \<not> fst (parse_response no_float two_verdicts)"
  by code_simp

section \<open>Properties of the code-execution verifier\<close>

lemma startswith_iff: "startswith p s \<longleftrightarrow> (\<exists>b. s = p @ b)"
  unfolding startswith_def
  by (metis append_eq_conv_conj append_take_drop_id)

lemma contains_iff: "contains p s \<longleftrightarrow> (\<exists>a b. s = a @ p @ b)"
proof (induction s)
  case Nil
  then show ?case by simp
next
  case (Cons x xs)
  show ?case
  proof
    assume "contains p (x # xs)"
    then consider "startswith p (x # xs)" | "contains p xs" by auto
    then show "\<exists>a b. x # xs = a @ p @ b"
    proof cases
      case 1
      then obtain b where "x # xs = p @ b" by (auto simp: startswith_iff)
      then have "x # xs = [] @ p @ b" by simp
      then show ?thesis by blast
    next
      case 2
      with Cons obtain a b where "xs = a @ p @ b" by auto
      then have "x # xs = (x # a) @ p @ b" by simp
      then show ?thesis by blast
    qed
  next
    assume "\<exists>a b. x # xs = a @ p @ b"
    then obtain a b where ab: "x # xs = a @ p @ b" by blast
    show "contains p (x # xs)"
    proof (cases a)
      case Nil
      with ab have "startswith p (x # xs)" by (auto simp: startswith_iff)
      then show ?thesis by simp
    next
      case (Cons y ys)
      with ab have "xs = ys @ p @ b" by simp
      with Cons.IH have "contains p xs" by blast
      then show ?thesis by simp
    qed
  qed
qed

lemma contains_Nil: "contains [] s"
  by (cases s) (simp_all add: startswith_def)

lemma code_check_ran:
  assumes "key \<noteq> []"
    and "run_in_sandbox ev (rq_payload rq) key timeout = Ran out err ec"
  shows "error (code_check ev key timeout e rq) = None
     \<and> (is_valid (code_check ev key timeout e rq) \<longleftrightarrow> ec = 0 \<and> contains e (strip out))
     \<and> (is_valid (code_check ev key timeout e rq) \<longrightarrow> score (code_check ev key timeout e rq) = Some 1)"
  using assms by (simp add: code_check_def Let_def contains_Nil)

text \<open>
  Claim C7 (amended). When the sandbox ran and gave (stdout, stderr, exit code): with no
  \<open>expected_output\<close> in the descriptor the result is valid, with score 1.0, exactly
  when the exit code is 0; with \<open>expected_output\<close> a string the result is valid, with
  score 1.0, exactly when the exit code is 0 and the trimmed \<open>expected_output\<close> is a
  substring of the trimmed stdout. A non-zero exit code always gives an invalid result.
\<close>

theorem code_execution_verdict:
  assumes key: "config_api_key ev ko \<noteq> []"
    and run: "run_in_sandbox ev (rq_payload rq) (config_api_key ev ko) (request_timeout ev to rq)
                = Ran out err ec"
  shows "(map_of (rq_config rq) ''expected_output'' = None \<longrightarrow>
            (\<exists>r. code_execution_verify ev ko to rq = Inr r \<and> error r = None
                 \<and> (is_valid r \<longleftrightarrow> ec = 0)
                 \<and> (is_valid r \<longrightarrow> score r = Some 1)))
       \<and> (\<forall>e. map_of (rq_config rq) ''expected_output'' = Some (JStr e) \<longrightarrow>
            (\<exists>r. code_execution_verify ev ko to rq = Inr r \<and> error r = None
                 \<and> (is_valid r \<longleftrightarrow> ec = 0 \<and> (\<exists>a b. strip out = a @ strip e @ b))
                 \<and> (is_valid r \<longrightarrow> score r = Some 1)))"
proof (intro conjI allI impI)
  assume none: "map_of (rq_config rq) ''expected_output'' = None"
  have s: "strip [] = []" by (simp add: strip_def)
  from none have "code_execution_verify ev ko to rq =
      Inr (code_check ev (config_api_key ev ko) (request_timeout ev to rq) [] rq)"
    by (simp add: code_execution_verify_def Let_def s)
  with code_check_ran [OF key run, of "[]"] show
    "\<exists>r. code_execution_verify ev ko to rq = Inr r \<and> error r = None
        \<and> (is_valid r \<longleftrightarrow> ec = 0) \<and> (is_valid r \<longrightarrow> score r = Some 1)"
    by (simp add: contains_Nil)
next
  fix e
  assume some: "map_of (rq_config rq) ''expected_output'' = Some (JStr e)"
  then have "code_execution_verify ev ko to rq =
      Inr (code_check ev (config_api_key ev ko) (request_timeout ev to rq) (strip e) rq)"
    by (simp add: code_execution_verify_def Let_def)
  with code_check_ran [OF key run, of "strip e"] show
    "\<exists>r. code_execution_verify ev ko to rq = Inr r \<and> error r = None
        \<and> (is_valid r \<longleftrightarrow> ec = 0 \<and> (\<exists>a b. strip out = a @ strip e @ b))
        \<and> (is_valid r \<longrightarrow> score r = Some 1)"
    by (simp add: contains_iff)
qed

theorem code_execution_verdict_witness:
  "config_api_key demo_env (Some ''key'') \<noteq> []
   \<and> run_in_sandbox demo_env (rq_payload padded_request) (config_api_key demo_env (Some ''key''))
        (request_timeout demo_env None padded_request) = Ran ''x'' [] 0
   \<and> map_of (rq_config padded_request) ''expected_output'' = Some (JStr '' x '')
   \<and> strip ''x'' = [] @ strip '' x '' @ []
   \<and> (\<exists>r. code_execution_verify demo_env (Some ''key'') None padded_request = Inr r
          \<and> is_valid r \<and> score r = Some 1)"
proof -
  have a: "config_api_key demo_env (Some ''key'') \<noteq> []"
    by code_simp
  have b: "run_in_sandbox demo_env (rq_payload padded_request)
             (config_api_key demo_env (Some ''key''))
             (request_timeout demo_env None padded_request) = Ran ''x'' [] 0"
    by code_simp
  have c: "map_of (rq_config padded_request) ''expected_output'' = Some (JStr '' x '')"
    by code_simp
  have d: "strip ''x'' = [] @ strip '' x '' @ []"
    by code_simp
  from code_execution_verdict [OF a b] c obtain r where
    r: "code_execution_verify demo_env (Some ''key'') None padded_request = Inr r"
       "is_valid r \<longleftrightarrow> 0 = (0::int) \<and> (\<exists>a b. strip ''x'' = a @ strip '' x '' @ b)"
       "is_valid r \<longrightarrow> score r = Some 1"
    by blast
  from d have "\<exists>a b. strip ''x'' = a @ strip '' x '' @ b"
    by blast
  with r have "is_valid r \<and> score r = Some 1"
    by simp
  with a b c d r(1) show ?thesis
    by blast
qed

text \<open>
  The claim as stated fails: with \<open>expected_output\<close> \<open>" x "\<close> and stdout \<open>x\<close> the
  expected text is no substring of the trimmed stdout, and the result is valid.
\<close>

theorem code_execution_verdict_counterexample:
  "map_of (rq_config padded_request) ''expected_output'' = Some (JStr '' x '')
   \<and> run_in_sandbox demo_env (rq_payload padded_request) ''key'' (JInt 30) = Ran ''x'' [] 0
   \<and> \<not> contains '' x '' (strip ''x'')
   \<and> (case code_execution_verify demo_env (Some ''key'') None padded_request of
         Inr r \<Rightarrow> is_valid r \<and> score r = Some 1
       | Inl e \<Rightarrow> False)"
  by code_simp

section \<open>Properties of the schema verifier\<close>











section \<open>Error codes of the verifiers\<close>

lemma code_check_error:
  "error (code_check ev key timeout e rq) = Some c \<Longrightarrow>
   c \<in> {''MISSING_E2B_API_KEY'', ''EXECUTION_TIMEOUT'', ''SANDBOX_ERROR''}
   \<and> \<not> is_valid (code_check ev key timeout e rq)"
  by (auto simp: code_check_def Let_def split: if_splits sandbox_outcome.splits)

lemma code_execution_error:
  assumes "code_execution_verify ev ko to rq = Inr r" "error r = Some c"
  shows "c \<in> {''MISSING_E2B_API_KEY'', ''EXECUTION_TIMEOUT'', ''SANDBOX_ERROR''} \<and> \<not> is_valid r"
proof -
  from assms(1) obtain e where
    "r = code_check ev (config_api_key ev ko) (request_timeout ev to rq) e rq"
    by (auto simp: code_execution_verify_def Let_def split: option.splits json.splits)
  with assms(2) show ?thesis
    using code_check_error by blast
qed

lemma semantic_error:
  assumes "semantic_verify ev mo rq = Inr r" "error r = Some c"
  shows "c \<in> {''MISSING_CRITERIA'', ''LLM_JUDGE_ERROR''} \<and> \<not> is_valid r"
  using assms
  by (auto simp: semantic_verify_def Let_def split: if_splits sum.splits prod.splits)

lemma schema_error:
  assumes "schema_verify ev rq = Inr r" "error r = Some c"
  shows "c \<in> {''MISSING_SCHEMA'', ''INVALID_JSON'', ''INVALID_SCHEMA'', ''SCHEMA_VERIFIER_ERROR''}
         \<and> \<not> is_valid r"
  using assms
  by (auto simp: schema_verify_def split: option.splits if_splits sum.splits
      validator_outcome.splits)

text \<open>
  Claim C9 (amended). Whenever one of the three verifiers returns a result with an
  error code, the result is invalid and the code is one of \<open>MISSING_E2B_API_KEY\<close>,
  \<open>EXECUTION_TIMEOUT\<close>, \<open>SANDBOX_ERROR\<close>, \<open>MISSING_CRITERIA\<close>, \<open>LLM_JUDGE_ERROR\<close>,
  \<open>MISSING_SCHEMA\<close>, \<open>INVALID_JSON\<close>, \<open>INVALID_SCHEMA\<close> and
  \<open>SCHEMA_VERIFIER_ERROR\<close>.
\<close>

theorem verifier_error_codes:
  assumes "code_execution_verify ev ko to rq = Inr r \<or> semantic_verify ev mo rq = Inr r
           \<or> schema_verify ev rq = Inr r"
    and "error r = Some c"
  shows "c \<in> set code_error_codes \<and> \<not> is_valid r"
proof -
  from assms(1) consider
    (code) "code_execution_verify ev ko to rq = Inr r"
    | (semantic) "semantic_verify ev mo rq = Inr r"
    | (schema) "schema_verify ev rq = Inr r"
    by blast
  then show ?thesis
  proof cases
    case code
    from code_execution_error [OF code assms(2)] show ?thesis
      by (auto simp: code_error_codes_def)
  next
    case semantic
    from semantic_error [OF semantic assms(2)] show ?thesis
      by (auto simp: code_error_codes_def)
  next
    case schema
    from schema_error [OF schema assms(2)] show ?thesis
      by (auto simp: code_error_codes_def)
  qed
qed

theorem verifier_error_codes_witness:
  "code_execution_verify demo_env None None padded_request = Inr missing_key_result
   \<and> error missing_key_result = Some ''MISSING_E2B_API_KEY''
   \<and> ''MISSING_E2B_API_KEY'' \<in> set code_error_codes
   \<and> \<not> is_valid missing_key_result"
proof -
  have a: "code_execution_verify demo_env None None padded_request = Inr missing_key_result"
    by (simp add: code_execution_verify_def code_check_def config_api_key_def demo_env_def
        padded_request_def missing_key_result_def Let_def)
  have b: "error missing_key_result = Some ''MISSING_E2B_API_KEY''"
    by (simp add: missing_key_result_def)
  from verifier_error_codes [OF disjI1 [OF a] b] a b show ?thesis
    by blast
qed

text \<open>
  The claim as stated fails: without an API key the code-execution verifier returns
  the code \<open>MISSING_E2B_API_KEY\<close>, which is none of the eight subtypes of the
  specification.
\<close>

theorem verifier_error_codes_counterexample:
  "(case code_execution_verify demo_env None None padded_request of
      Inr r \<Rightarrow> error r = Some ''MISSING_E2B_API_KEY'' \<and> \<not> is_valid r
    | Inl e \<Rightarrow> False)
   \<and> ''MISSING_E2B_API_KEY'' \<notin> set spec_error_codes"
  by code_simp

section \<open>Properties of the escrow service\<close>

lemma sm_values:
  "EscrowStateMachine ''CREATED'' = Inr CREATED"
  "EscrowStateMachine ''FUNDED'' = Inr FUNDED"
  "EscrowStateMachine ''IN_PROGRESS'' = Inr IN_PROGRESS"
  "EscrowStateMachine ''SUBMITTED'' = Inr SUBMITTED"
  "EscrowStateMachine ''VERIFYING'' = Inr VERIFYING"
  "EscrowStateMachine ''COMPLETED'' = Inr COMPLETED"
  "EscrowStateMachine ''FAILED'' = Inr FAILED"
  "EscrowStateMachine ''DISPUTED'' = Inr DISPUTED"
  by (simp_all add: EscrowStateMachine_def states_def)

lemmas repo_defs = get_contract_or_raise_def fire_transition_def the_contract_def
  modify_contract_def escrow_create_def update_status_def increment_retry_def
  submission_create_def submission_get_by_id_def submission_get_by_contract_def
  update_verification_def event_record_def event_get_by_contract_def py_or_def

lemma accepted_store_eq:
  "accepted_store =
     \<lparr>contracts = [1 \<mapsto> demo_contract ''IN_PROGRESS'' 0], submissions = [], events = demo_log,
      committed = empty_tables\<rparr>"
  by (simp add: accepted_store_def funded_store_def created_store_def empty_store_def
      accept_contract_def fund_contract_def create_contract_def repo_defs Let_def sm_values
      fire_def declared_transitions_def demo_contract_def demo_log_def demo_event_def)

lemma submitted_store_eq:
  "submitted_store =
     \<lparr>contracts = [1 \<mapsto> demo_contract ''SUBMITTED'' 0],
      submissions = [demo_submission 7 None None],
      events = demo_log @
        [demo_event WORK_SUBMITTED (Some ''IN_PROGRESS'') ''SUBMITTED'' ''0xW''
           (Some [(''submission_id'', JStr (uuid_str 7))])],
      committed = empty_tables\<rparr>"
  by (simp add: submitted_store_def accepted_store_eq submit_work_def repo_defs Let_def sm_values
      fire_def declared_transitions_def demo_contract_def demo_event_def demo_submission_def)

lemma verifying_store_eq:
  "verifying_store =
     \<lparr>contracts = [1 \<mapsto> demo_contract ''VERIFYING'' 0],
      submissions = [demo_submission 7 None None],
      events = demo_log @
        [demo_event WORK_SUBMITTED (Some ''IN_PROGRESS'') ''SUBMITTED'' ''0xW''
           (Some [(''submission_id'', JStr (uuid_str 7))]),
         demo_event VERIFICATION_STARTED (Some ''SUBMITTED'') ''VERIFYING'' ''SYSTEM'' None],
      committed = empty_tables\<rparr>"
  by (simp add: verifying_store_def submitted_store_eq start_verification_def repo_defs Let_def sm_values
      fire_def declared_transitions_def demo_contract_def demo_event_def demo_submission_def)

lemma fire_from_verifying:
  "fire VERIFYING max_retries_exceeded = Inr FAILED"
  "fire VERIFYING verification_failed_retry = Inr IN_PROGRESS"
  "fire VERIFYING verification_passed = Inr COMPLETED"
  by (simp_all add: fire_def declared_transitions_def)



lemma contracts_update_verification [simp]:
  "contracts (update_verification sid b vr st) = contracts st"
  by (simp add: update_verification_def)

lemma events_update_verification [simp]:
  "events (update_verification sid b vr st) = events st"
  by (simp add: update_verification_def)

lemma mark_absent:
  "sid \<notin> s_id ` set xs \<Longrightarrow> map (\<lambda>s. if s_id s = sid then f s else s) xs = xs"
  by (induction xs) auto

lemma find_absent: "sid \<notin> s_id ` set xs \<Longrightarrow> find (\<lambda>s. s_id s = sid) xs = None"
  by (induction xs) auto

lemma find_present: "sid \<in> s_id ` set xs \<Longrightarrow> find (\<lambda>s. s_id s = sid) xs \<noteq> None"
  by (induction xs) auto

lemma marked_store:
  "(case submission_get_by_id st sid of
      Some sub \<Rightarrow> update_verification sid b vr st
    | None \<Rightarrow> st) = st\<lparr>submissions := submissions (update_verification sid b vr st)\<rparr>"
proof (cases "sid \<in> s_id ` set (submissions st)")
  case True
  then obtain sub where "submission_get_by_id st sid = Some sub"
    using find_present [OF True] by (auto simp: submission_get_by_id_def)
  then show ?thesis by (simp add: update_verification_def)
next
  case False
  then show ?thesis
    by (simp add: submission_get_by_id_def find_absent update_verification_def mark_absent)
qed

text \<open>
  \<open>record_verification_failed\<close> on a contract in \<open>VERIFYING\<close>: with a retry left
  the increment passes the constraint and the call succeeds; with none left the
  flush of the increment fails.
\<close>

lemma rvf_verifying:
  assumes c: "contracts st cid = Some c" and v: "status c = ''VERIFYING''"
    and lo: "- 1 \<le> retry_count c" and hi: "retry_count c < max_retries c"
  shows "record_verification_failed st cid sid vr =
     (Inr (failed_contract c),
      st\<lparr>contracts := (contracts st)(cid \<mapsto> failed_contract c),
         submissions := submissions (update_verification sid False vr st),
         events := events st @ [failed_event cid c vr]\<rparr>)"
  using c v lo hi
  by (simp add: record_verification_failed_def marked_store get_contract_or_raise_def Let_def
      increment_retry_def ck_escrow_retry_bounds_def modify_contract_def the_contract_def
      fire_transition_def
      sm_values fire_from_verifying update_status_def event_record_def
      failed_contract_def failed_event_def)

lemma rvf_exhausted:
  assumes c: "contracts st cid = Some c" and hi: "max_retries c \<le> retry_count c"
  shows "record_verification_failed st cid sid vr =
     (Inl (IntegrityError ''ck_escrow_retry_bounds''), rollback st)"
  using c hi
  by (simp add: record_verification_failed_def marked_store get_contract_or_raise_def Let_def
      increment_retry_def ck_escrow_retry_bounds_def rollback_def)


lemma zero_accepted_store_eq:
  "zero_accepted_store =
     \<lparr>contracts = [1 \<mapsto> zero_contract ''IN_PROGRESS''], submissions = [], events = demo_log,
      committed = \<lparr>t_contracts = [1 \<mapsto> zero_contract ''IN_PROGRESS''], t_submissions = [],
                   t_events = demo_log\<rparr>\<rparr>"
  by (simp add: zero_accepted_store_def zero_funded_store_def zero_created_store_def
      empty_store_def commit_def session_tables_def
      accept_contract_def fund_contract_def create_contract_def repo_defs Let_def sm_values
      fire_def declared_transitions_def demo_contract_def zero_contract_def demo_log_def
      demo_event_def)

lemma zero_submitted_store_eq:
  "zero_submitted_store =
     \<lparr>contracts = [1 \<mapsto> zero_contract ''SUBMITTED''],
      submissions = [demo_submission 7 None None],
      events = demo_log @
        [demo_event WORK_SUBMITTED (Some ''IN_PROGRESS'') ''SUBMITTED'' ''0xW''
           (Some [(''submission_id'', JStr (uuid_str 7))])],
      committed = \<lparr>t_contracts = [1 \<mapsto> zero_contract ''IN_PROGRESS''], t_submissions = [],
                   t_events = demo_log\<rparr>\<rparr>"
  by (simp add: zero_submitted_store_def zero_accepted_store_eq
      submit_work_def repo_defs Let_def sm_values
      fire_def declared_transitions_def demo_contract_def zero_contract_def demo_event_def
      demo_submission_def)

lemma zero_verifying_store_eq:
  "zero_verifying_store =
     \<lparr>contracts = [1 \<mapsto> zero_contract ''VERIFYING''],
      submissions = [demo_submission 7 None None],
      events = demo_log @
        [demo_event WORK_SUBMITTED (Some ''IN_PROGRESS'') ''SUBMITTED'' ''0xW''
           (Some [(''submission_id'', JStr (uuid_str 7))]),
         demo_event VERIFICATION_STARTED (Some ''SUBMITTED'') ''VERIFYING'' ''SYSTEM'' None],
      committed = \<lparr>t_contracts = [1 \<mapsto> zero_contract ''IN_PROGRESS''], t_submissions = [],
                   t_events = demo_log\<rparr>\<rparr>"
  by (simp add: zero_verifying_store_def zero_submitted_store_eq
      start_verification_def repo_defs Let_def sm_values
      fire_def declared_transitions_def demo_contract_def zero_contract_def demo_event_def
      demo_submission_def)




section \<open>Properties of the verification service\<close>



lemma start_verification_submitted:
  assumes c: "contracts st cid = Some c" and v: "status c = ''SUBMITTED''"
  shows "start_verification st cid =
     (Inr (c\<lparr>status := ''VERIFYING''\<rparr>),
      st\<lparr>contracts := (contracts st)(cid \<mapsto> c\<lparr>status := ''VERIFYING''\<rparr>),
         events := events st @
           [\<lparr>e_contract_id = cid, e_event_type = VERIFICATION_STARTED,
             old_status = Some ''SUBMITTED'', new_status = ''VERIFYING'',
             actor = ''SYSTEM'', metadata_json = None\<rparr>]\<rparr>)"
  using c v
  by (simp add: start_verification_def get_contract_or_raise_def fire_transition_def sm_values
      fire_def declared_transitions_def update_status_def modify_contract_def event_record_def
      the_contract_def Let_def)







section \<open>Bounded retries\<close>

lemma submit_work_in_progress:
  assumes c: "contracts st cid = Some c" and v: "status c = ''IN_PROGRESS''"
  shows "submit_work st new_sid cid pl worker =
     (Inr (submitted_row new_sid cid pl worker c),
      st\<lparr>contracts := (contracts st)(cid \<mapsto> c\<lparr>status := ''SUBMITTED''\<rparr>),
         submissions := submissions st @ [submitted_row new_sid cid pl worker c],
         events := events st @ [submitted_event new_sid cid worker c]\<rparr>)"
  using c v
  by (simp add: submit_work_def get_contract_or_raise_def fire_transition_def sm_values
      fire_def declared_transitions_def update_status_def modify_contract_def event_record_def
      submission_create_def Let_def submitted_row_def submitted_event_def)

lemma submit_work_failed:
  assumes c: "contracts st cid = Some c" and v: "status c = ''FAILED''"
  shows "submit_work st new_sid cid pl worker =
     (Inl (InvalidStateTransitionError ''FAILED'' worker_submits), st)"
  using c v
  by (simp add: submit_work_def get_contract_or_raise_def fire_transition_def sm_values
      fire_def declared_transitions_def)

lemma start_verification_eq:
  assumes c: "contracts st cid = Some c" and v: "status c = ''SUBMITTED''"
  shows "start_verification st cid =
     (Inr (c\<lparr>status := ''VERIFYING''\<rparr>),
      st\<lparr>contracts := (contracts st)(cid \<mapsto> c\<lparr>status := ''VERIFYING''\<rparr>),
         events := events st @ [started_event cid]\<rparr>)"
  using start_verification_submitted [OF c v] by (simp add: started_event_def)

lemma workflow_round_rejected:
  assumes c: "contracts st cid = Some c" and v: "status c = ''IN_PROGRESS''"
    and rej: "rejecting ev c"
    and lo: "0 \<le> retry_count c" and hi: "retry_count c < max_retries c"
  shows "\<exists>ws vr subs.
     run_escrow_workflow ev st cid pl worker new_sid ph tx =
       (ws, st\<lparr>contracts := (contracts st)(cid \<mapsto> failed_contract c),
               submissions := subs,
               events := events st @
                 [submitted_event new_sid cid worker c, started_event cid,
                  failed_event cid c vr]\<rparr>)
     \<and> w_error ws = None \<and> \<not> w_verification_passed ws
     \<and> w_final_status ws = status (failed_contract c)"
proof -
  define row where "row = submitted_row new_sid cid pl worker c"
  define c1 where "c1 = c\<lparr>status := ''SUBMITTED''\<rparr>"
  define st1 where "st1 = st\<lparr>contracts := (contracts st)(cid \<mapsto> c1),
         submissions := submissions st @ [row],
         events := events st @ [submitted_event new_sid cid worker c]\<rparr>"
  define c2 where "c2 = c1\<lparr>status := ''VERIFYING''\<rparr>"
  define st2 where "st2 = st1\<lparr>contracts := (contracts st1)(cid \<mapsto> c2),
         events := events st1 @ [started_event cid]\<rparr>"
  have sw: "submit_work st new_sid cid pl worker = (Inr row, st1)"
    unfolding row_def st1_def c1_def by (rule submit_work_in_progress [OF c v])
  have c1: "contracts st1 cid = Some c1" by (simp add: st1_def)
  have v1: "status c1 = ''SUBMITTED''" by (simp add: c1_def)
  have sv: "start_verification st1 cid = (Inr c2, st2)"
    unfolding st2_def c2_def by (rule start_verification_eq [OF c1 v1])
  have latest: "submission_get_by_contract st2 cid =
      row # rev (filter (\<lambda>s. s_contract_id s = cid) (submissions st))"
    by (simp add: submission_get_by_contract_def st2_def st1_def row_def submitted_row_def)
  have logic: "verification_logic c2 = verification_logic c"
    by (simp add: c2_def c1_def)
  have schema: "requirements_schema c2 = requirements_schema c"
    by (simp add: c2_def c1_def)
  define rq where "rq = \<lparr>rq_contract_id = uuid_str cid, rq_payload = payload row,
              rq_config = verification_logic c2, rq_schema = requirements_schema c2\<rparr>"
  from rej obtain vf where vf: "verifier_create (verification_logic c2) = Inr vf"
    and all: "\<forall>cid pl. \<exists>result.
        verifier_verify ev vf
          \<lparr>rq_contract_id = cid, rq_payload = pl, rq_config = verification_logic c,
           rq_schema = requirements_schema c\<rparr> = Inr result \<and> \<not> is_valid result"
    by (auto simp: rejecting_def logic)
  from all have "\<exists>result. verifier_verify ev vf rq = Inr result \<and> \<not> is_valid result"
    unfolding rq_def logic schema by blast
  then obtain result where res: "verifier_verify ev vf rq = Inr result" "\<not> is_valid result"
    by blast
  have c2: "contracts st2 cid = Some c2" by (simp add: st2_def)
  have v2: "status c2 = ''VERIFYING''" by (simp add: c2_def)
  have sid: "s_id row = new_sid" by (simp add: row_def submitted_row_def)
  define st3 where "st3 = st2\<lparr>contracts := (contracts st2)(cid \<mapsto> failed_contract c2),
         submissions := submissions (update_verification new_sid False (to_dict result) st2),
         events := events st2 @ [failed_event cid c2 (to_dict result)]\<rparr>"
  have lo2: "- 1 \<le> retry_count c2" and hi2: "retry_count c2 < max_retries c2"
    using lo hi by (simp_all add: c2_def c1_def)
  have rvf: "record_verification_failed st2 cid new_sid (to_dict result)
      = (Inr (failed_contract c2), st3)"
    unfolding st3_def by (rule rvf_verifying [OF c2 v2 lo2 hi2])
  have fc: "failed_contract c2 = failed_contract c"
    by (simp add: failed_contract_def Let_def c2_def c1_def)
  have fe: "failed_event cid c2 (to_dict result) = failed_event cid c (to_dict result)"
    by (simp add: failed_event_def Let_def c2_def c1_def)
  have vls: "verify_latest_submission ev st1 cid ph = (Inr result, st3)"
    using vf res
    by (simp add: verify_latest_submission_def sv latest rvf sid rq_def Let_def)
  have c3: "contracts st3 cid = Some (failed_contract c)"
    by (simp add: st3_def fc)
  have run: "run_escrow_workflow ev st cid pl worker new_sid ph tx =
      (\<lparr>w_submission_id = Some (uuid_str new_sid), w_verification_passed = False,
        w_verification_result = to_dict result, w_settlement_tx_hash = [],
        w_final_status = status (failed_contract c), w_error = None\<rparr>, st3)"
    using res(2)
    by (simp add: run_escrow_workflow_def sw vls Let_def get_contract_or_raise_def c3 sid)
  have st3_eq: "st3 = st\<lparr>contracts := (contracts st)(cid \<mapsto> failed_contract c),
               submissions := submissions (update_verification new_sid False (to_dict result) st2),
               events := events st @
                 [submitted_event new_sid cid worker c, started_event cid,
                  failed_event cid c (to_dict result)]\<rparr>"
    by (simp add: st3_def st2_def st1_def fc fe update_verification_def)
  show ?thesis
    unfolding run
    apply (rule exI [of _ "\<lparr>w_submission_id = Some (uuid_str new_sid), w_verification_passed = False,
        w_verification_result = to_dict result, w_settlement_tx_hash = [],
        w_final_status = status (failed_contract c), w_error = None\<rparr>"])
    apply (rule exI [of _ "to_dict result"])
    apply (rule exI [of _ "submissions (update_verification new_sid False (to_dict result) st2)"])
    using st3_eq by simp
qed

lemma rejecting_failed_contract: "rejecting ev (failed_contract c) = rejecting ev c"
  by (simp add: rejecting_def failed_contract_def Let_def)

lemma workflow_round_failed:
  assumes c: "contracts st cid = Some c" and v: "status c = ''FAILED''"
  shows "run_escrow_workflow ev st cid pl worker new_sid ph tx =
     (\<lparr>w_submission_id = None, w_verification_passed = False, w_verification_result = [],
       w_settlement_tx_hash = [], w_final_status = ''ERROR'',
       w_error = Some (InvalidStateTransitionError ''FAILED'' worker_submits)\<rparr>, st)"
  by (simp add: run_escrow_workflow_def submit_work_failed [OF c v] Let_def)

lemma two_rejections:
  assumes c: "contracts st cid = Some c" and v: "status c = ''IN_PROGRESS''"
    and rc: "retry_count c = 0" and mr: "max_retries c = 2"
    and rej: "rejecting ev c"
  shows "(let r1 = run_escrow_workflow ev st cid p1 w1 s1 h1 t1;
              r2 = run_escrow_workflow ev (snd r1) cid p2 w2 s2 h2 t2
          in contracts (snd r1) cid = Some (c\<lparr>retry_count := 1\<rparr>)
             \<and> w_error (fst r1) = None
             \<and> contracts (snd r2) cid = Some (c\<lparr>retry_count := 2, status := ''FAILED''\<rparr>)
             \<and> w_error (fst r2) = None
             \<and> e_event_type (last (event_get_by_contract (snd r2) cid)) = MAX_RETRIES_EXCEEDED)"
proof -
  define c1 where "c1 = failed_contract c"
  have c1_eq: "c1 = c\<lparr>retry_count := 1\<rparr>"
    using v rc mr by (simp add: c1_def failed_contract_def Let_def)
  have lo: "0 \<le> retry_count c" and hi: "retry_count c < max_retries c"
    using rc mr by simp_all
  have lo1: "0 \<le> retry_count c1" and hi1: "retry_count c1 < max_retries c1"
    using rc mr by (simp_all add: c1_eq)
  from workflow_round_rejected [OF c v rej lo hi, of p1 w1 s1 h1 t1]
  obtain ws1 vr1 subs1 where r1: "run_escrow_workflow ev st cid p1 w1 s1 h1 t1 =
       (ws1, st\<lparr>contracts := (contracts st)(cid \<mapsto> c1),
               submissions := subs1,
               events := events st @
                 [submitted_event s1 cid w1 c, started_event cid, failed_event cid c vr1]\<rparr>)"
    and e1: "w_error ws1 = None"
    unfolding c1_def by blast
  define st1 where "st1 = st\<lparr>contracts := (contracts st)(cid \<mapsto> c1),
               submissions := subs1,
               events := events st @
                 [submitted_event s1 cid w1 c, started_event cid, failed_event cid c vr1]\<rparr>"
  have k1: "contracts st1 cid = Some c1" by (simp add: st1_def)
  have v1: "status c1 = ''IN_PROGRESS''" using v by (simp add: c1_eq)
  have rej1: "rejecting ev c1" using rej by (simp add: c1_def rejecting_failed_contract)
  have c2_eq: "failed_contract c1 = c\<lparr>retry_count := 2, status := ''FAILED''\<rparr>"
    using rc mr by (simp add: c1_eq failed_contract_def Let_def)
  from workflow_round_rejected [OF k1 v1 rej1 lo1 hi1, of p2 w2 s2 h2 t2]
  obtain ws2 vr2 subs2 where r2: "run_escrow_workflow ev st1 cid p2 w2 s2 h2 t2 =
       (ws2, st1\<lparr>contracts := (contracts st1)(cid \<mapsto> failed_contract c1),
               submissions := subs2,
               events := events st1 @
                 [submitted_event s2 cid w2 c1, started_event cid, failed_event cid c1 vr2]\<rparr>)"
    and e2: "w_error ws2 = None"
    by blast
  have ty: "e_event_type (failed_event cid c1 vr2) = MAX_RETRIES_EXCEEDED"
    using rc mr by (simp add: failed_event_def c1_eq Let_def)
  have id: "e_contract_id (failed_event cid c1 vr2) = cid"
    by (simp add: failed_event_def Let_def)
  have lst: "last (event_get_by_contract
       (st1\<lparr>contracts := (contracts st1)(cid \<mapsto> failed_contract c1),
               submissions := subs2,
               events := events st1 @
                 [submitted_event s2 cid w2 c1, started_event cid, failed_event cid c1 vr2]\<rparr>) cid)
       = failed_event cid c1 vr2"
    using id by (simp add: event_get_by_contract_def)
  show ?thesis
    using e1 e2 ty
    by (simp add: Let_def r1 st1_def [symmetric] r2 k1 c1_eq [symmetric] c2_eq [symmetric] lst)
qed

lemma demo_rejecting: "rejecting demo_env (demo_contract s n)"
  by (simp add: rejecting_def demo_contract_def mock_reject_def verifier_create_def registry_def
      verifier_verify_def mock_verify_def Let_def)

text \<open>
  Claim C5 (amended). For a contract in \<open>IN_PROGRESS\<close> with \<open>max_retries = 2\<close>, no
  retry used and a verifier that rejects every submission: the first bad submission
  (submitted and verified by the workflow) leaves it in \<open>IN_PROGRESS\<close> with
  \<open>retry_count = 1\<close>; the second leaves it in \<open>FAILED\<close> with \<open>retry_count = 2\<close>, the
  last event of its log being \<open>MAX_RETRIES_EXCEEDED\<close>; a third submission is refused
  by \<open>submit_work\<close> with an illegal-transition error and changes nothing.
\<close>

theorem three_bad_submissions:
  assumes c: "contracts st cid = Some c" and v: "status c = ''IN_PROGRESS''"
    and rc: "retry_count c = 0" and mr: "max_retries c = 2"
    and rej: "rejecting ev c"
  shows "(let r1 = run_escrow_workflow ev st cid p1 w1 s1 h1 t1;
              r2 = run_escrow_workflow ev (snd r1) cid p2 w2 s2 h2 t2;
              r3 = run_escrow_workflow ev (snd r2) cid p3 w3 s3 h3 t3
          in contracts (snd r1) cid = Some (c\<lparr>retry_count := 1\<rparr>)
             \<and> w_error (fst r1) = None
             \<and> contracts (snd r2) cid = Some (c\<lparr>retry_count := 2, status := ''FAILED''\<rparr>)
             \<and> w_error (fst r2) = None
             \<and> e_event_type (last (event_get_by_contract (snd r2) cid)) = MAX_RETRIES_EXCEEDED
             \<and> submit_work (snd r2) s3 cid p3 w3
                 = (Inl (InvalidStateTransitionError ''FAILED'' worker_submits), snd r2)
             \<and> w_error (fst r3) = Some (InvalidStateTransitionError ''FAILED'' worker_submits)
             \<and> snd r3 = snd r2)"
proof -
  define r1 where "r1 = run_escrow_workflow ev st cid p1 w1 s1 h1 t1"
  define r2 where "r2 = run_escrow_workflow ev (snd r1) cid p2 w2 s2 h2 t2"
  from two_rejections [OF c v rc mr rej, of p1 w1 s1 h1 t1 p2 w2 s2 h2 t2]
  have two: "contracts (snd r1) cid = Some (c\<lparr>retry_count := 1\<rparr>)" "w_error (fst r1) = None"
      "contracts (snd r2) cid = Some (c\<lparr>retry_count := 2, status := ''FAILED''\<rparr>)"
      "w_error (fst r2) = None"
      "e_event_type (last (event_get_by_contract (snd r2) cid)) = MAX_RETRIES_EXCEEDED"
    by (simp_all add: Let_def r1_def r2_def)
  have f: "status (c\<lparr>retry_count := 2, status := ''FAILED''\<rparr>) = ''FAILED''"
    by simp
  note sw = submit_work_failed [OF two(3) f, of s3 p3 w3]
  note wf = workflow_round_failed [OF two(3) f, of ev p3 w3 s3 h3 t3]
  show ?thesis
    using two sw wf by (simp add: Let_def r1_def [symmetric] r2_def [symmetric])
qed

theorem three_bad_submissions_witness:
  "contracts accepted_store 1 = Some (demo_contract ''IN_PROGRESS'' 0)
   \<and> status (demo_contract ''IN_PROGRESS'' 0) = ''IN_PROGRESS''
   \<and> retry_count (demo_contract ''IN_PROGRESS'' 0) = 0
   \<and> max_retries (demo_contract ''IN_PROGRESS'' 0) = 2
   \<and> rejecting demo_env (demo_contract ''IN_PROGRESS'' 0)
   \<and> contracts (snd first_round) 1 = Some (demo_contract ''IN_PROGRESS'' 1)
   \<and> contracts (snd second_round) 1 = Some (demo_contract ''FAILED'' 2)
   \<and> e_event_type (last (event_get_by_contract (snd second_round) 1)) = MAX_RETRIES_EXCEEDED
   \<and> w_error (fst third_round) = Some (InvalidStateTransitionError ''FAILED'' worker_submits)
   \<and> snd third_round = snd second_round"
proof -
  have a: "contracts accepted_store 1 = Some (demo_contract ''IN_PROGRESS'' 0)"
    by (simp add: accepted_store_eq)
  have b: "status (demo_contract ''IN_PROGRESS'' 0) = ''IN_PROGRESS''"
          "retry_count (demo_contract ''IN_PROGRESS'' 0) = 0"
          "max_retries (demo_contract ''IN_PROGRESS'' 0) = 2"
    by (simp_all add: demo_contract_def)
  have d: "demo_contract ''IN_PROGRESS'' 0 \<lparr>retry_count := 1\<rparr> = demo_contract ''IN_PROGRESS'' 1"
          "demo_contract ''IN_PROGRESS'' 0 \<lparr>retry_count := 2, status := ''FAILED''\<rparr>
             = demo_contract ''FAILED'' 2"
    by (simp_all add: demo_contract_def)
  note r = demo_rejecting [of "''IN_PROGRESS''" 0]
  from three_bad_submissions [OF a b r,
      of "''print(1)''" "Some ''0xW''" 7 70 "''0xS1''" "''print(2)''" "Some ''0xW''" 8 80 "''0xS2''"
         "''print(3)''" "Some ''0xW''" 9 90 "''0xS3''"]
    a b d r
  show ?thesis
    by (simp add: Let_def first_round_def second_round_def third_round_def)
qed

text \<open>
  The claim as stated fails: after two bad submissions the contract is \<open>FAILED\<close>, and
  \<open>submit_work\<close> refuses the third.
\<close>

theorem three_bad_submissions_counterexample:
  "contracts accepted_store 1 = Some (demo_contract ''IN_PROGRESS'' 0)
   \<and> max_retries (demo_contract ''IN_PROGRESS'' 0) = 2
   \<and> w_error (fst first_round) = None
   \<and> w_error (fst second_round) = None
   \<and> fst (submit_work (snd second_round) 9 1 ''print(3)'' (Some ''0xW''))
       = Inl (InvalidStateTransitionError ''FAILED'' worker_submits)"
proof -
  have a: "contracts accepted_store 1 = Some (demo_contract ''IN_PROGRESS'' 0)"
    by (simp add: accepted_store_eq)
  have b: "status (demo_contract ''IN_PROGRESS'' 0) = ''IN_PROGRESS''"
          "retry_count (demo_contract ''IN_PROGRESS'' 0) = 0"
          "max_retries (demo_contract ''IN_PROGRESS'' 0) = 2"
    by (simp_all add: demo_contract_def)
  from two_rejections [OF a b demo_rejecting,
      of "''print(1)''" "Some ''0xW''" 7 70 "''0xS1''" "''print(2)''" "Some ''0xW''" 8 80 "''0xS2''"]
  have two: "w_error (fst first_round) = None" "w_error (fst second_round) = None"
    "contracts (snd second_round) 1
       = Some (demo_contract ''IN_PROGRESS'' 0 \<lparr>retry_count := 2, status := ''FAILED''\<rparr>)"
    by (simp_all add: Let_def first_round_def second_round_def)
  have f: "status (demo_contract ''IN_PROGRESS'' 0 \<lparr>retry_count := 2, status := ''FAILED''\<rparr>)
       = ''FAILED''"
    by simp
  from submit_work_failed [OF two(3) f, of 9 "''print(3)''" "Some ''0xW''"] a b two
  show ?thesis by simp
qed

section \<open>One event for every change of status\<close>

lemma status_value_inj: "status_value a = status_value b \<Longrightarrow> a = b"
  by (cases a; cases b; simp)

lemma sm_Inr_iff: "EscrowStateMachine v = Inr s \<longleftrightarrow> v = status_value s"
proof
  assume "EscrowStateMachine v = Inr s"
  then have "find (\<lambda>s. status_value s = v) states = Some s"
    by (simp add: EscrowStateMachine_def split: option.splits)
  then show "v = status_value s"
    using find_SomeD by fastforce
next
  assume "v = status_value s"
  then show "EscrowStateMachine v = Inr s"
    by (simp add: EscrowStateMachine_known)
qed

lemma fire_transition_Inr:
  "fire_transition c e = Inr u \<longleftrightarrow> (\<exists>old new. status c = status_value old \<and> fire old e = Inr new)"
proof (cases "EscrowStateMachine (status c)")
  case (Inl err)
  then have "\<And>old. status c \<noteq> status_value old"
    using sm_Inr_iff [of "status c"] by auto
  with Inl show ?thesis by (simp add: fire_transition_def)
next
  case (Inr old)
  then have s: "status c = status_value old" by (simp add: sm_Inr_iff)
  show ?thesis
  proof
    assume "fire_transition c e = Inr u"
    with Inr have "\<exists>new. fire old e = Inr new"
      by (cases "fire old e") (simp_all add: fire_transition_def)
    with s show "\<exists>old new. status c = status_value old \<and> fire old e = Inr new" by blast
  next
    assume "\<exists>old new. status c = status_value old \<and> fire old e = Inr new"
    then obtain old' new where h: "status c = status_value old'" "fire old' e = Inr new" by blast
    with s have "old' = old" using status_value_inj by simp
    with h Inr show "fire_transition c e = Inr u"
      by (simp add: fire_transition_def)
  qed
qed



lemma fire_event_cases:
  "fire old on_chain_confirmed = Inr new \<longleftrightarrow> old = CREATED \<and> new = FUNDED"
  "fire old worker_accepts = Inr new \<longleftrightarrow> old = FUNDED \<and> new = IN_PROGRESS"
  "fire old worker_submits = Inr new \<longleftrightarrow> old = IN_PROGRESS \<and> new = SUBMITTED"
  "fire old auto_verify = Inr new \<longleftrightarrow> old = SUBMITTED \<and> new = VERIFYING"
  "fire old verification_passed = Inr new \<longleftrightarrow> old = VERIFYING \<and> new = COMPLETED"
  "fire old verification_failed_retry = Inr new \<longleftrightarrow> old = VERIFYING \<and> new = IN_PROGRESS"
  "fire old max_retries_exceeded = Inr new \<longleftrightarrow> old = VERIFYING \<and> new = FAILED"
  "fire old buyer_disputes = Inr new \<longleftrightarrow> (old = FUNDED \<or> old = IN_PROGRESS) \<and> new = DISPUTED"
  by (cases old; auto simp: fire_def declared_transitions_def)+

lemma loggedI:
  assumes "contracts st' cid = Some c'" "status c = status_value old" "status c' = status_value new"
    "fire old e = Inr new" "events st' = events st @ [ev]" "e_contract_id ev = cid"
    "e_event_type ev = canonical_event_type e" "old_status ev = Some (status c)"
    "new_status ev = status c'"
  shows "logged st st' cid c"
  unfolding logged_def using assms by blast

lemmas write_defs = event_record_def update_status_def modify_contract_def increment_retry_def
  submission_create_def update_verification_def the_contract_def

lemma fund_logged:
  assumes c: "contracts st cid = Some c" and ok: "fund_contract st cid tx w = (Inr x, st')"
  shows "logged st st' cid c"
proof -
  from ok c obtain u where ft: "fire_transition c on_chain_confirmed = Inr u"
    by (auto simp: fund_contract_def get_contract_or_raise_def split: sum.splits)
  then have s: "status c = status_value CREATED" and f: "fire CREATED on_chain_confirmed = Inr FUNDED"
    by (auto simp: fire_transition_Inr fire_event_cases)
  from ok c ft have st': "st' = event_record cid CONTRACT_FUNDED (Some CREATED) FUNDED ''SYSTEM''
       (Some [(''tx_hash'', JStr tx), (''escrow_wallet'', JStr w)])
       (update_status cid FUNDED (modify_contract cid
          (\<lambda>c. c\<lparr>funding_tx_hash := Some tx, escrow_wallet_address := Some w\<rparr>) st))"
    by (simp add: fund_contract_def get_contract_or_raise_def Let_def)
  show ?thesis
    by (rule loggedI [where old = CREATED and new = FUNDED and e = on_chain_confirmed
          and c' = "c\<lparr>funding_tx_hash := Some tx, escrow_wallet_address := Some w,
                       status := ''FUNDED''\<rparr>"
          and ev = "\<lparr>e_contract_id = cid, e_event_type = CONTRACT_FUNDED,
                      old_status = Some ''CREATED'', new_status = ''FUNDED'', actor = ''SYSTEM'',
                      metadata_json = Some [(''tx_hash'', JStr tx), (''escrow_wallet'', JStr w)]\<rparr>"])
       (simp_all add: st' c s f write_defs)
qed

lemma accept_logged:
  assumes c: "contracts st cid = Some c" and ok: "accept_contract st cid worker = (Inr x, st')"
  shows "logged st st' cid c"
proof -
  from ok c have nw: "worker_wallet c = None"
    by (auto simp: accept_contract_def get_contract_or_raise_def split: if_splits)
  from ok c nw obtain u where ft: "fire_transition c worker_accepts = Inr u"
    by (auto simp: accept_contract_def get_contract_or_raise_def split: sum.splits)
  then have s: "status c = status_value FUNDED" and f: "fire FUNDED worker_accepts = Inr IN_PROGRESS"
    by (auto simp: fire_transition_Inr fire_event_cases)
  from ok c nw ft have st': "st' = event_record cid WORKER_ASSIGNED (Some FUNDED) IN_PROGRESS worker
       None (update_status cid IN_PROGRESS
               (modify_contract cid (\<lambda>c. c\<lparr>worker_wallet := Some worker\<rparr>) st))"
    by (simp add: accept_contract_def get_contract_or_raise_def Let_def)
  show ?thesis
    by (rule loggedI [where old = FUNDED and new = IN_PROGRESS and e = worker_accepts
          and c' = "c\<lparr>worker_wallet := Some worker, status := ''IN_PROGRESS''\<rparr>"
          and ev = "\<lparr>e_contract_id = cid, e_event_type = WORKER_ASSIGNED,
                      old_status = Some ''FUNDED'', new_status = ''IN_PROGRESS'', actor = worker,
                      metadata_json = None\<rparr>"])
       (simp_all add: st' c s f write_defs)
qed

lemma submit_logged:
  assumes c: "contracts st cid = Some c" and ok: "submit_work st new_sid cid pl worker = (Inr x, st')"
  shows "logged st st' cid c"
proof -
  from ok c obtain u where ft: "fire_transition c worker_submits = Inr u"
    by (auto simp: submit_work_def get_contract_or_raise_def split: sum.splits)
  then have s: "status c = ''IN_PROGRESS''"
    by (auto simp: fire_transition_Inr fire_event_cases)
  have f: "fire IN_PROGRESS worker_submits = Inr SUBMITTED"
    by (simp add: fire_event_cases)
  from ok have "st' = snd (submit_work st new_sid cid pl worker)"
    by simp
  then have st': "st' = st\<lparr>contracts := (contracts st)(cid \<mapsto> c\<lparr>status := ''SUBMITTED''\<rparr>),
         submissions := submissions st @ [submitted_row new_sid cid pl worker c],
         events := events st @ [submitted_event new_sid cid worker c]\<rparr>"
    by (simp only: submit_work_in_progress [OF c s] snd_conv)
  show ?thesis
    by (rule loggedI [where old = IN_PROGRESS and new = SUBMITTED and e = worker_submits
          and c' = "c\<lparr>status := ''SUBMITTED''\<rparr>"
          and ev = "submitted_event new_sid cid worker c"])
       (simp_all add: st' s f submitted_event_def)
qed

lemma start_logged:
  assumes c: "contracts st cid = Some c" and ok: "start_verification st cid = (Inr x, st')"
  shows "logged st st' cid c"
proof -
  from ok c obtain u where ft: "fire_transition c auto_verify = Inr u"
    by (auto simp: start_verification_def get_contract_or_raise_def split: sum.splits)
  then have s: "status c = ''SUBMITTED''"
    by (auto simp: fire_transition_Inr fire_event_cases)
  have f: "fire SUBMITTED auto_verify = Inr VERIFYING"
    by (simp add: fire_event_cases)
  from ok have "st' = snd (start_verification st cid)"
    by simp
  then have st': "st' = st\<lparr>contracts := (contracts st)(cid \<mapsto> c\<lparr>status := ''VERIFYING''\<rparr>),
         events := events st @ [started_event cid]\<rparr>"
    by (simp only: start_verification_eq [OF c s] snd_conv)
  show ?thesis
    by (rule loggedI [where old = SUBMITTED and new = VERIFYING and e = auto_verify
          and c' = "c\<lparr>status := ''VERIFYING''\<rparr>" and ev = "started_event cid"])
       (simp_all add: st' s f started_event_def)
qed

lemma passed_logged:
  assumes c: "contracts st cid = Some c"
    and ok: "record_verification_passed st cid sid vr = (Inr x, st')"
  shows "logged st st' cid c"
proof -
  from ok c obtain u where ft: "fire_transition c verification_passed = Inr u"
    by (auto simp: record_verification_passed_def get_contract_or_raise_def split: sum.splits)
  then have s: "status c = status_value VERIFYING"
    and f: "fire VERIFYING verification_passed = Inr COMPLETED"
    by (auto simp: fire_transition_Inr fire_event_cases)
  define st1 where "st1 = update_status cid COMPLETED st"
  from ok c ft have st': "st' = event_record cid VERIFICATION_PASSED (Some VERIFYING) COMPLETED
       ''SYSTEM'' (Some vr)
       (st1\<lparr>submissions := submissions (update_verification sid True vr st1)\<rparr>)"
    by (simp add: record_verification_passed_def get_contract_or_raise_def Let_def marked_store
        st1_def)
  show ?thesis
    by (rule loggedI [where old = VERIFYING and new = COMPLETED and e = verification_passed
          and c' = "c\<lparr>status := ''COMPLETED''\<rparr>"
          and ev = "\<lparr>e_contract_id = cid, e_event_type = VERIFICATION_PASSED,
                      old_status = Some ''VERIFYING'', new_status = ''COMPLETED'',
                      actor = ''SYSTEM'', metadata_json = Some vr\<rparr>"])
       (simp_all add: st' st1_def c s f write_defs)
qed

lemma failed_logged:
  assumes c: "contracts st cid = Some c"
    and ok: "record_verification_failed st cid sid vr = (Inr x, st')"
  shows "logged st st' cid c"
proof -
  define c1 where "c1 = c\<lparr>retry_count := retry_count c + 1\<rparr>"
  from ok c have ck: "ck_escrow_retry_bounds c1"
    by (auto simp: record_verification_failed_def get_contract_or_raise_def Let_def marked_store
        increment_retry_def c1_def split: sum.splits if_splits)
  then have lo: "- 1 \<le> retry_count c" and hi: "retry_count c < max_retries c"
    by (simp_all add: ck_escrow_retry_bounds_def c1_def)
  from ok c ck have "\<exists>e u. fire_transition c1 e = Inr u
      \<and> (e = max_retries_exceeded \<or> e = verification_failed_retry)"
    by (auto simp: record_verification_failed_def get_contract_or_raise_def Let_def marked_store
        increment_retry_def modify_contract_def the_contract_def c1_def
        split: sum.splits if_splits)
  then have s: "status c = ''VERIFYING''"
    by (auto simp: fire_transition_Inr fire_event_cases c1_def)
  from ok have "st' = snd (record_verification_failed st cid sid vr)"
    by simp
  then have st': "st' = st\<lparr>contracts := (contracts st)(cid \<mapsto> failed_contract c),
         submissions := submissions (update_verification sid False vr st),
         events := events st @ [failed_event cid c vr]\<rparr>"
    by (simp only: rvf_verifying [OF c s lo hi] snd_conv)
  show ?thesis
  proof (cases "retry_count c + 1 < max_retries c")
    case True
    show ?thesis
      by (rule loggedI [where old = VERIFYING and new = IN_PROGRESS
            and e = verification_failed_retry
            and c' = "failed_contract c" and ev = "failed_event cid c vr"])
         (simp_all add: st' s True failed_contract_def failed_event_def Let_def fire_event_cases)
  next
    case False
    show ?thesis
      by (rule loggedI [where old = VERIFYING and new = FAILED
            and e = max_retries_exceeded
            and c' = "failed_contract c" and ev = "failed_event cid c vr"])
         (simp_all add: st' s False failed_contract_def failed_event_def Let_def fire_event_cases)
  qed
qed

lemma dispute_logged:
  assumes c: "contracts st cid = Some c"
    and ok: "raise_dispute st cid reason raised_by = (Inr x, st')"
  shows "logged st st' cid c"
proof -
  from ok c obtain old where old: "find (\<lambda>s. status_value s = status c) states = Some old"
    by (auto simp: raise_dispute_def get_contract_or_raise_def split: option.splits)
  then have s: "status c = status_value old"
    using find_SomeD by fastforce
  from ok c old obtain u where ft: "fire_transition c buyer_disputes = Inr u"
    by (auto simp: raise_dispute_def get_contract_or_raise_def split: sum.splits)
  then have f: "fire old buyer_disputes = Inr DISPUTED"
    using s status_value_inj by (auto simp: fire_transition_Inr fire_event_cases)
  from ok c old ft have st': "st' = event_record cid DISPUTE_RAISED (Some old) DISPUTED raised_by
       (Some [(''reason'', JStr reason)]) (update_status cid DISPUTED st)"
    by (simp add: raise_dispute_def get_contract_or_raise_def Let_def)
  show ?thesis
    by (rule loggedI [where old = old and new = DISPUTED and e = buyer_disputes
          and c' = "c\<lparr>status := ''DISPUTED''\<rparr>"
          and ev = "\<lparr>e_contract_id = cid, e_event_type = DISPUTE_RAISED,
                      old_status = Some (status_value old), new_status = ''DISPUTED'',
                      actor = raised_by, metadata_json = Some [(''reason'', JStr reason)]\<rparr>"])
       (simp_all add: st' c s f write_defs)
qed

lemma read_logged:
  assumes c: "contracts st cid = Some c"
  shows "get_contract st cid = (r1, st1) \<Longrightarrow> logged st st1 cid c"
    and "get_status st cid = (r2, st2) \<Longrightarrow> logged st st2 cid c"
    and "get_events st cid = (r3, st3) \<Longrightarrow> logged st st3 cid c"
  using c
  by (auto simp: get_contract_def get_status_def get_events_def get_contract_or_raise_def
      logged_def split: sum.splits)

lemma forget_Inr: "forget r = (Inr u, st') \<longleftrightarrow> (\<exists>x. r = (Inr x, st'))"
  by (cases r; cases "fst r") (auto simp: forget_def)

lemma apply_op_logged:
  assumes "apply_op st cid operation = (Inr u, st')" "contracts st cid = Some c"
  shows "logged st st' cid c"
  using assms
  by (cases operation)
     (auto simp: apply_op_def forget_Inr
        intro: fund_logged accept_logged submit_logged start_logged passed_logged failed_logged
               dispute_logged read_logged)

lemma fired_event_unique: "fire old e = Inr new \<Longrightarrow> fire old e' = Inr new \<Longrightarrow> e = e'"
  by (cases old; cases e; cases e'; simp add: fire_def declared_transitions_def)

lemma chained_snoc:
  "chained evs \<Longrightarrow> evs \<noteq> [] \<Longrightarrow> old_status ev = Some (new_status (last evs)) \<Longrightarrow>
   chained (evs @ [ev])"
  by (induction evs rule: chained.induct) auto

lemma logged_consistent:
  assumes l: "logged st st' cid c" and c: "contracts st cid = Some c" and k: "consistent st cid"
  shows "consistent st' cid"
proof -
  from l obtain c' where c': "contracts st' cid = Some c'"
    and alt: "(status c' = status c \<and> events st' = events st)
       \<or> (\<exists>ev. events st' = events st @ [ev] \<and> e_contract_id ev = cid
              \<and> old_status ev = Some (status c) \<and> new_status ev = status c')"
    unfolding logged_def by blast
  from k c have evs: "event_get_by_contract st cid \<noteq> []"
    and lst: "new_status (last (event_get_by_contract st cid)) = status c"
    and ch: "chained (event_get_by_contract st cid)"
    and hd0: "old_status (hd (event_get_by_contract st cid)) = None"
             "e_event_type (hd (event_get_by_contract st cid)) = CONTRACT_CREATED"
    by (auto simp: consistent_def)
  from alt show ?thesis
  proof
    assume "status c' = status c \<and> events st' = events st"
    then have "event_get_by_contract st' cid = event_get_by_contract st cid" "status c' = status c"
      by (simp_all add: event_get_by_contract_def)
    with c' evs lst ch hd0 show ?thesis
      by (simp add: consistent_def)
  next
    assume "\<exists>ev. events st' = events st @ [ev] \<and> e_contract_id ev = cid
              \<and> old_status ev = Some (status c) \<and> new_status ev = status c'"
    then obtain ev where ev: "events st' = events st @ [ev]" "e_contract_id ev = cid"
      "old_status ev = Some (status c)" "new_status ev = status c'"
      by blast
    then have g: "event_get_by_contract st' cid = event_get_by_contract st cid @ [ev]"
      by (simp add: event_get_by_contract_def)
    have "chained (event_get_by_contract st cid @ [ev])"
      using ch evs ev(3) lst by (simp add: chained_snoc)
    with c' evs hd0 ev(4) show ?thesis
      by (simp add: consistent_def g)
  qed
qed

lemma run_ops_consistent:
  "consistent st cid \<Longrightarrow> run_ops st cid ops = Some st' \<Longrightarrow> consistent st' cid"
proof (induction ops arbitrary: st)
  case Nil
  then show ?case by simp
next
  case (Cons operation rest)
  from Cons.prems(1) obtain c where c: "contracts st cid = Some c"
    by (auto simp: consistent_def)
  from Cons.prems(2) obtain u st1 where a: "apply_op st cid operation = (Inr u, st1)"
    and r: "run_ops st1 cid rest = Some st'"
    by (auto split: prod.splits sum.splits)
  from apply_op_logged [OF a c] have "logged st st1 cid c" .
  then have "consistent st1 cid"
    using c Cons.prems(1) by (rule logged_consistent)
  with r show ?case
    by (rule Cons.IH [rotated])
qed

lemma create_contract_eq:
  "create_contract st new_id buyer amount descr vlogic req_schema maxr =
     (Inr (created_contract buyer amount descr vlogic req_schema maxr),
      st\<lparr>contracts := (contracts st)(new_id \<mapsto>
              created_contract buyer amount descr vlogic req_schema maxr),
         events := events st @ [created_event new_id buyer descr]\<rparr>)"
  by (simp add: create_contract_def Let_def escrow_create_def event_record_def
      created_contract_def created_event_def)

lemma create_consistent:
  assumes "event_get_by_contract st new_id = []"
  shows "consistent (snd (create_contract st new_id buyer amount descr vlogic req_schema maxr)) new_id"
  using assms
  by (simp add: create_contract_eq consistent_def event_get_by_contract_def
      created_contract_def created_event_def)

lemma demo_run:
  "run_ops created_store 1
     [FundContract ''0xT'' ''0xE'', AcceptContract ''0xW'',
      SubmitWork 7 ''print(1)'' (Some ''0xW''), StartVerification, GetStatus] = Some verifying_store"
  by (simp add: verifying_store_eq created_store_def empty_store_def
      apply_op_def forget_def get_status_def
      start_verification_def submit_work_def
      accept_contract_def fund_contract_def create_contract_def repo_defs Let_def sm_values
      fire_def declared_transitions_def demo_contract_def demo_log_def demo_event_def
      demo_submission_def)

text \<open>
  Claim C3. Every successful operation of the escrow service on a contract is logged:
  it leaves status and log alone, or moves the status along a transition and appends
  exactly one event with the status before, the status after and the canonical type
  of the fired event. \<open>create_contract\<close> appends exactly one \<open>CONTRACT_CREATED\<close> event
  with no \<open>old_status\<close>. Hence, after creation under a fresh id and any run of
  successful operations on the contract, each event of its log starts at the status
  at which the previous one ended, and the last one ends at the contract's status.
\<close>

theorem events_follow_status:
  "(apply_op st cid operation = (Inr u, st') \<and> contracts st cid = Some c
      \<longrightarrow> logged st st' cid c)
   \<and> create_contract st new_id buyer amount descr vlogic req_schema maxr =
       (Inr (created_contract buyer amount descr vlogic req_schema maxr),
        st\<lparr>contracts := (contracts st)(new_id \<mapsto>
                created_contract buyer amount descr vlogic req_schema maxr),
           events := events st @ [created_event new_id buyer descr]\<rparr>)
   \<and> (event_get_by_contract st new_id = []
      \<and> run_ops (snd (create_contract st new_id buyer amount descr vlogic req_schema maxr))
            new_id ops = Some last_store
      \<longrightarrow> consistent last_store new_id)"
proof (intro conjI impI)
  assume "apply_op st cid operation = (Inr u, st') \<and> contracts st cid = Some c"
  then show "logged st st' cid c"
    using apply_op_logged by blast
next
  show "create_contract st new_id buyer amount descr vlogic req_schema maxr =
       (Inr (created_contract buyer amount descr vlogic req_schema maxr),
        st\<lparr>contracts := (contracts st)(new_id \<mapsto>
                created_contract buyer amount descr vlogic req_schema maxr),
           events := events st @ [created_event new_id buyer descr]\<rparr>)"
    by (rule create_contract_eq)
next
  assume h: "event_get_by_contract st new_id = []
      \<and> run_ops (snd (create_contract st new_id buyer amount descr vlogic req_schema maxr))
            new_id ops = Some last_store"
  then have "consistent (snd (create_contract st new_id buyer amount descr vlogic req_schema maxr))
      new_id"
    using create_consistent by blast
  with h show "consistent last_store new_id"
    using run_ops_consistent by blast
qed

theorem events_follow_status_witness:
  "apply_op accepted_store 1 (SubmitWork 7 ''print(1)'' (Some ''0xW'')) = (Inr (), submitted_store)
   \<and> contracts accepted_store 1 = Some (demo_contract ''IN_PROGRESS'' 0)
   \<and> logged accepted_store submitted_store 1 (demo_contract ''IN_PROGRESS'' 0)
   \<and> event_get_by_contract empty_store 1 = []
   \<and> run_ops (snd (create_contract empty_store 1 ''0xB'' 100 ''Print Hello'' mock_reject None 2)) 1
        [FundContract ''0xT'' ''0xE'', AcceptContract ''0xW'',
         SubmitWork 7 ''print(1)'' (Some ''0xW''), StartVerification, GetStatus]
       = Some verifying_store
   \<and> consistent verifying_store 1"
proof -
  have a: "contracts accepted_store 1 = Some (demo_contract ''IN_PROGRESS'' 0)"
    by (simp add: accepted_store_eq)
  have s: "status (demo_contract ''IN_PROGRESS'' 0) = ''IN_PROGRESS''"
    by (simp add: demo_contract_def)
  note sw = submit_work_in_progress [OF a s, of 7 "''print(1)''" "Some ''0xW''"]
  have b: "apply_op accepted_store 1 (SubmitWork 7 ''print(1)'' (Some ''0xW''))
      = (Inr (), submitted_store)"
    by (simp add: apply_op_def forget_def submitted_store_def sw [unfolded One_nat_def])
  have d: "event_get_by_contract empty_store 1 = []"
    by (simp add: event_get_by_contract_def empty_store_def)
  have e: "run_ops (snd (create_contract empty_store 1 ''0xB'' 100 ''Print Hello'' mock_reject None 2)) 1
        [FundContract ''0xT'' ''0xE'', AcceptContract ''0xW'',
         SubmitWork 7 ''print(1)'' (Some ''0xW''), StartVerification, GetStatus]
       = Some verifying_store"
    using demo_run by (simp add: created_store_def)
  note t1 = events_follow_status [where st = accepted_store and cid = 1
      and operation = "SubmitWork 7 ''print(1)'' (Some ''0xW'')" and u = "()"
      and st' = submitted_store and c = "demo_contract ''IN_PROGRESS'' 0"]
  note t2 = events_follow_status [where st = empty_store and new_id = 1 and buyer = "''0xB''"
      and amount = 100 and descr = "''Print Hello''" and vlogic = mock_reject
      and req_schema = None and maxr = 2 and last_store = verifying_store]
  from t1 a b have l: "logged accepted_store submitted_store 1 (demo_contract ''IN_PROGRESS'' 0)"
    by blast
  from t2 d e have k: "consistent verifying_store 1"
    by blast
  from a b l d e k show ?thesis
    by blast
qed

section \<open>Raising calls and the unit of work\<close>

text \<open>
  Every public method but \<open>record_verification_failed\<close> fires the transition
  before its first write, so a call that raises leaves the session as it found it;
  so does \<open>record_verification_failed\<close> when the contract is not found.
\<close>

lemma raising_calls_leave_store:
  assumes "apply_op st cid operation = (Inl err, st')"
    and "\<forall>sid vr. operation \<noteq> RecordVerificationFailed sid vr"
  shows "st' = st"
  using assms
  by (cases operation)
     (auto simp: apply_op_def forget_def fund_contract_def accept_contract_def submit_work_def
        start_verification_def record_verification_passed_def raise_dispute_def
        get_contract_def get_status_def get_events_def Let_def
        split: sum.splits option.splits if_splits prod.splits)

lemma rvf_not_found:
  "contracts st cid = None \<Longrightarrow>
   record_verification_failed st cid sid vr = (Inl (ContractNotFoundError cid), st)"
  by (simp add: record_verification_failed_def get_contract_or_raise_def)

text \<open>
  No method of the service commits: the tables as last committed are the same after
  every call, whatever it returns. Hence a unit of work in which a call raises ends
  with the database as it was.
\<close>

lemma committed_forget: "committed (snd (forget r)) = committed (snd r)"
  by (cases r; cases "fst r") (auto simp: forget_def)

lemma committed_writes [simp]:
  "committed (modify_contract cid f st) = committed st"
  "committed (update_status cid new st) = committed st"
  "committed (submission_create sub st) = committed st"
  "committed (update_verification sid b vr st) = committed st"
  "committed (event_record cid et old new act md st) = committed st"
  "committed (rollback st) = committed st"
  by (simp_all add: modify_contract_def update_status_def submission_create_def
      update_verification_def event_record_def rollback_def split: option.splits)

lemma committed_increment_retry:
  "increment_retry cid st = Inr st' \<Longrightarrow> committed st' = committed st"
  by (auto simp: increment_retry_def split: option.splits if_splits)

lemma committed_rvf:
  "committed (snd (record_verification_failed st cid sid vr)) = committed st"
  by (auto simp: record_verification_failed_def Let_def marked_store
      dest: committed_increment_retry split: sum.splits)

lemma committed_apply_op: "committed (snd (apply_op st cid operation)) = committed st"
  by (cases operation)
     (auto simp: apply_op_def committed_forget committed_rvf
        fund_contract_def accept_contract_def submit_work_def
        start_verification_def record_verification_passed_def raise_dispute_def
        get_contract_def get_status_def get_events_def Let_def marked_store
        split: sum.splits option.splits)

lemma unit_of_work_raises:
  assumes "get_async_session (\<lambda>s. apply_op s cid operation) db = (Inl err, db')"
  shows "db' = db"
proof -
  obtain r st' where a: "apply_op (begin_session db) cid operation = (r, st')"
    by (cases "apply_op (begin_session db) cid operation")
  from committed_apply_op [of "begin_session db" cid operation] a
  have "committed st' = db"
    by (simp add: begin_session_def)
  with assms a show ?thesis
    by (cases r) (simp_all add: get_async_session_def)
qed

lemma mcp_tool_raises:
  assumes "mcp_tool (\<lambda>s. apply_op s cid operation) db = (Inl err, db')"
  shows "db' = db"
proof -
  obtain r st' where a: "apply_op (begin_session db) cid operation = (r, st')"
    by (cases "apply_op (begin_session db) cid operation")
  from committed_apply_op [of "begin_session db" cid operation] a
  have "committed st' = db"
    by (simp add: begin_session_def)
  with assms a show ?thesis
    by (cases r) (simp_all add: mcp_tool_def)
qed

text \<open>
  \<open>record_verification_failed\<close> writes before it fires, and the verification
  service calls it on the session in which \<open>start_verification\<close> has just
  succeeded: there the contract is found and in \<open>VERIFYING\<close>, and the only
  exception left is the \<open>IntegrityError\<close> of the increment.
\<close>

lemma rvf_violated:
  assumes c: "contracts st cid = Some c"
    and ck: "\<not> ck_escrow_retry_bounds (c\<lparr>retry_count := retry_count c + 1\<rparr>)"
  shows "record_verification_failed st cid sid vr =
     (Inl (IntegrityError ''ck_escrow_retry_bounds''), rollback st)"
  using c ck
  by (simp add: record_verification_failed_def marked_store get_contract_or_raise_def Let_def
      increment_retry_def rollback_def)

lemma rvf_after_start:
  assumes sv: "start_verification st cid = (Inr c, started)"
    and r: "fst (record_verification_failed started cid sid vr) = Inl err"
  shows "err = IntegrityError ''ck_escrow_retry_bounds''"
proof -
  from sv obtain c0 where c0: "contracts st cid = Some c0"
    by (auto simp: start_verification_def get_contract_or_raise_def split: option.splits)
  from sv c0 obtain u where "fire_transition c0 auto_verify = Inr u"
    by (auto simp: start_verification_def get_contract_or_raise_def split: sum.splits)
  then have s: "status c0 = ''SUBMITTED''"
    by (auto simp: fire_transition_Inr fire_event_cases)
  from sv have "started = snd (start_verification st cid)"
    by simp
  then have st: "started = st\<lparr>contracts := (contracts st)(cid \<mapsto> c0\<lparr>status := ''VERIFYING''\<rparr>),
         events := events st @ [started_event cid]\<rparr>"
    by (simp only: start_verification_eq [OF c0 s] snd_conv)
  define c1 where "c1 = c0\<lparr>status := ''VERIFYING''\<rparr>"
  have k: "contracts started cid = Some c1" and v: "status c1 = ''VERIFYING''"
    by (simp_all add: st c1_def)
  show ?thesis
  proof (cases "ck_escrow_retry_bounds (c1\<lparr>retry_count := retry_count c1 + 1\<rparr>)")
    case True
    then have "- 1 \<le> retry_count c1" "retry_count c1 < max_retries c1"
      by (simp_all add: ck_escrow_retry_bounds_def)
    from rvf_verifying [OF k v this, of sid vr] r show ?thesis
      by simp
  next
    case False
    from rvf_violated [OF k False, of sid vr] r show ?thesis
      by simp
  qed
qed

lemma create_contract_returns:
  "fst (create_contract st new_id buyer amount descr vlogic req_schema maxr)
     \<noteq> Inl (ContractNotFoundError missing)"
  "fst (create_contract st new_id buyer amount descr vlogic req_schema maxr)
     \<noteq> Inl (InvalidStateTransitionError from_status fired)"
  by (simp_all add: create_contract_def Let_def)

text \<open>
  Claim C4. A public method of the escrow service that raises changes no observable
  state. The state that can be observed is the database, and a call runs in the unit
  of work of its caller: under \<open>get_async_session\<close> and in an MCP tool, a call that
  raises, whichever method and whatever database it starts from, ends with the
  database exactly as it was. In the session itself, every method but
  \<open>record_verification_failed\<close> raises before its first write and leaves the
  session as it found it; \<open>record_verification_failed\<close> does so when the contract
  is not found, and where the verification service calls it, after
  \<open>start_verification\<close> has succeeded, it raises neither of the two errors (only
  the \<open>IntegrityError\<close> of a violated constraint, on which the failed flush rolls
  back). \<open>create_contract\<close> looks up no contract and fires no event, and raises
  neither of the two errors.
\<close>

theorem raising_call_changes_nothing:
  "(get_async_session (\<lambda>s. apply_op s cid operation) db = (Inl err, db') \<longrightarrow> db' = db)
   \<and> (mcp_tool (\<lambda>s. apply_op s cid operation) db = (Inl err, db') \<longrightarrow> db' = db)
   \<and> (apply_op st cid operation = (Inl err, st')
        \<and> (\<forall>sid vr. operation \<noteq> RecordVerificationFailed sid vr) \<longrightarrow> st' = st)
   \<and> (contracts st cid = None \<longrightarrow>
        record_verification_failed st cid sid vr = (Inl (ContractNotFoundError cid), st))
   \<and> (start_verification st cid = (Inr c, started)
        \<and> fst (record_verification_failed started cid sid vr) = Inl err
      \<longrightarrow> err = IntegrityError ''ck_escrow_retry_bounds'')
   \<and> fst (create_contract st new_id buyer amount descr vlogic req_schema maxr)
        \<noteq> Inl (ContractNotFoundError missing)
   \<and> fst (create_contract st new_id buyer amount descr vlogic req_schema maxr)
        \<noteq> Inl (InvalidStateTransitionError from_status fired)"
proof (intro conjI impI)
  assume "get_async_session (\<lambda>s. apply_op s cid operation) db = (Inl err, db')"
  then show "db' = db"
    by (rule unit_of_work_raises)
next
  assume "mcp_tool (\<lambda>s. apply_op s cid operation) db = (Inl err, db')"
  then show "db' = db"
    by (rule mcp_tool_raises)
next
  assume "apply_op st cid operation = (Inl err, st')
      \<and> (\<forall>sid vr. operation \<noteq> RecordVerificationFailed sid vr)"
  then show "st' = st"
    using raising_calls_leave_store by blast
next
  assume "contracts st cid = None"
  then show "record_verification_failed st cid sid vr = (Inl (ContractNotFoundError cid), st)"
    by (rule rvf_not_found)
next
  assume "start_verification st cid = (Inr c, started)
      \<and> fst (record_verification_failed started cid sid vr) = Inl err"
  then show "err = IntegrityError ''ck_escrow_retry_bounds''"
    using rvf_after_start by blast
next
  show "fst (create_contract st new_id buyer amount descr vlogic req_schema maxr)
        \<noteq> Inl (ContractNotFoundError missing)"
    by (rule create_contract_returns)
next
  show "fst (create_contract st new_id buyer amount descr vlogic req_schema maxr)
        \<noteq> Inl (InvalidStateTransitionError from_status fired)"
    by (rule create_contract_returns)
qed

text \<open>
  A direct call of \<open>record_verification_failed\<close> for a contract in \<open>SUBMITTED\<close>,
  which no caller in the program makes: the session holds the marked submission and
  the incremented counter when the illegal-transition error is raised, and the unit
  of work around the call discards them.
\<close>

lemma submitted_session:
  "begin_session submitted_db = submitted_store\<lparr>committed := submitted_db\<rparr>"
  by (simp add: begin_session_def submitted_db_def session_tables_def)

lemma record_verification_failed_direct_call:
  "record_verification_failed (begin_session submitted_db) 1 7 (to_dict mock_rejection) =
     (Inl (InvalidStateTransitionError ''SUBMITTED'' verification_failed_retry),
      (begin_session submitted_db)
        \<lparr>contracts := [1 \<mapsto> demo_contract ''SUBMITTED'' 1],
         submissions := [demo_submission 7 (Some False) (Some (to_dict mock_rejection))]\<rparr>)"
  by (simp add: submitted_session submitted_store_eq record_verification_failed_def repo_defs
      ck_escrow_retry_bounds_def Let_def sm_values
      fire_def declared_transitions_def demo_contract_def demo_event_def demo_submission_def)

theorem raising_call_changes_nothing_witness:
  "fst (get_async_session
          (\<lambda>s. apply_op s 1 (RecordVerificationFailed 7 (to_dict mock_rejection))) submitted_db)
     = Inl (InvalidStateTransitionError ''SUBMITTED'' verification_failed_retry)
   \<and> snd (get_async_session
          (\<lambda>s. apply_op s 1 (RecordVerificationFailed 7 (to_dict mock_rejection))) submitted_db)
     = submitted_db
   \<and> fst (mcp_tool
          (\<lambda>s. apply_op s 1 (RecordVerificationFailed 7 (to_dict mock_rejection))) submitted_db)
     = Inl (InvalidStateTransitionError ''SUBMITTED'' verification_failed_retry)
   \<and> snd (mcp_tool
          (\<lambda>s. apply_op s 1 (RecordVerificationFailed 7 (to_dict mock_rejection))) submitted_db)
     = submitted_db
   \<and> apply_op accepted_store 1 StartVerification
     = (Inl (InvalidStateTransitionError ''IN_PROGRESS'' auto_verify), accepted_store)
   \<and> contracts empty_store 1 = None
   \<and> record_verification_failed empty_store 1 7 (to_dict mock_rejection)
     = (Inl (ContractNotFoundError 1), empty_store)
   \<and> start_verification zero_submitted_store 1
     = (Inr (zero_contract ''VERIFYING''), zero_verifying_store)
   \<and> fst (record_verification_failed zero_verifying_store 1 7 (to_dict mock_rejection))
     = Inl (IntegrityError ''ck_escrow_retry_bounds'')"
proof -
  define call where
    "call = (\<lambda>s. apply_op s 1 (RecordVerificationFailed 7 (to_dict mock_rejection)))"
  define raised where
    "raised = InvalidStateTransitionError ''SUBMITTED'' verification_failed_retry"
  have a: "fst (call (begin_session submitted_db)) = Inl raised"
    by (simp add: call_def raised_def apply_op_def forget_def
        record_verification_failed_direct_call [unfolded One_nat_def])
  have g1: "fst (get_async_session call submitted_db) = Inl raised"
    using a by (cases "call (begin_session submitted_db)")
      (auto simp: get_async_session_def split: sum.splits)
  have m1: "fst (mcp_tool call submitted_db) = Inl raised"
    using a by (cases "call (begin_session submitted_db)")
      (auto simp: mcp_tool_def split: sum.splits)
  have g2: "get_async_session call submitted_db
      = (Inl raised, snd (get_async_session call submitted_db))"
    using g1 by (cases "get_async_session call submitted_db") simp
  have m2: "mcp_tool call submitted_db = (Inl raised, snd (mcp_tool call submitted_db))"
    using m1 by (cases "mcp_tool call submitted_db") simp
  have k: "contracts accepted_store 1 = Some (demo_contract ''IN_PROGRESS'' 0)"
    by (simp add: accepted_store_eq)
  have sv: "apply_op accepted_store 1 StartVerification
      = (Inl (InvalidStateTransitionError ''IN_PROGRESS'' auto_verify),
         snd (apply_op accepted_store 1 StartVerification))"
    using k
    by (simp add: apply_op_def forget_def start_verification_def get_contract_or_raise_def
        fire_transition_def sm_values fire_def declared_transitions_def demo_contract_def)
  have nf: "contracts empty_store 1 = None"
    by (simp add: empty_store_def)
  have z: "contracts zero_submitted_store 1 = Some (zero_contract ''SUBMITTED'')"
          "status (zero_contract ''SUBMITTED'') = ''SUBMITTED''"
    by (simp_all add: zero_submitted_store_eq zero_contract_def demo_contract_def)
  have zs: "start_verification zero_submitted_store 1
      = (Inr (zero_contract ''VERIFYING''), zero_verifying_store)"
    using start_verification_eq [OF z, unfolded One_nat_def]
    by (simp add: zero_verifying_store_def zero_contract_def demo_contract_def)
  have zk: "contracts zero_verifying_store 1 = Some (zero_contract ''VERIFYING'')"
    by (simp add: zero_verifying_store_eq)
  obtain e where ze: "fst (record_verification_failed zero_verifying_store 1 7
      (to_dict mock_rejection)) = Inl e"
    using rvf_exhausted [OF zk, of 7 "to_dict mock_rejection"]
    by (simp add: zero_contract_def demo_contract_def)
  note t = raising_call_changes_nothing
  from t [where operation = "RecordVerificationFailed 7 (to_dict mock_rejection)" and cid = 1
      and db = submitted_db and err = raised
      and db' = "snd (get_async_session call submitted_db)"] g2
  have p1: "snd (get_async_session call submitted_db) = submitted_db"
    by (simp add: call_def)
  from t [where operation = "RecordVerificationFailed 7 (to_dict mock_rejection)" and cid = 1
      and db = submitted_db and err = raised
      and db' = "snd (mcp_tool call submitted_db)"] m2
  have p2: "snd (mcp_tool call submitted_db) = submitted_db"
    by (simp add: call_def)
  from t [where operation = StartVerification and cid = 1 and st = accepted_store
      and err = "InvalidStateTransitionError ''IN_PROGRESS'' auto_verify"
      and st' = "snd (apply_op accepted_store 1 StartVerification)"] sv
  have p3: "snd (apply_op accepted_store 1 StartVerification) = accepted_store"
    by simp
  from t [where st = empty_store and cid = 1 and sid = 7 and vr = "to_dict mock_rejection"] nf
  have p4: "record_verification_failed empty_store 1 7 (to_dict mock_rejection)
     = (Inl (ContractNotFoundError 1), empty_store)"
    by simp
  from t [where st = zero_submitted_store and cid = 1 and c = "zero_contract ''VERIFYING''"
      and started = zero_verifying_store and sid = 7 and vr = "to_dict mock_rejection"
      and err = e] zs ze
  have p5: "e = IntegrityError ''ck_escrow_retry_bounds''"
    by simp
  from g1 p1 m1 p2 sv p3 nf p4 zs ze p5 show ?thesis
    by (simp add: call_def raised_def)
qed

end
